theory Spec2Isabelle
  imports Complex_Main "HOL-Library.AList"
begin

section \<open>Timer scheduler (class TimerManager)\<close>

text \<open>
  Source names that start with an underscore are written with the prefix \<open>p_\<close>
  (\<open>_addFunc\<close> is \<open>p_addFunc\<close>, \<open>_runMoment\<close> is \<open>p_runMoment\<close>), since an
  identifier cannot start with an underscore here. All other names are the source's.
\<close>

subsection \<open>Datetime and TimeDelta\<close>

text \<open>
  A \<open>TimeDelta\<close> is its tick count (microseconds). A non-null \<open>Datetime\<close> is the
  number of ticks since \<open>Datetime::min()\<close>; an argument that may be the null
  Datetime is a \<open>Datetime option\<close>, \<open>None\<close> being null.
\<close>

type_synonym TimeDelta = int
type_synonym Datetime = int

text \<open>
  Modelled from the spec: the class TimeDelta (datetime/TimeDelta.h is not among the source
  files), a signed duration counted in ticks of one microsecond. The order of the
  arguments of its constructor is the one that the calls in the scheduler show: days,
  hours, minutes, seconds, milliseconds, microseconds, each with the default 0. The
  scheduler writes the last instant of a day as \<open>TimeDelta(0, 23, 59, 59, 999, 999)\<close>
  and a tenth of a second as \<open>TimeDelta(0, 0, 0, 0, 100)\<close>. So \<open>TimeDelta()\<close> and
  \<open>TimeDelta(0)\<close> are zero, and \<open>TimeDelta(1)\<close> is one day.
\<close>

definition TimeDelta :: "int \<Rightarrow> int \<Rightarrow> int \<Rightarrow> int \<Rightarrow> int \<Rightarrow> int \<Rightarrow> TimeDelta" where
  "TimeDelta days hours minutes seconds milliseconds microseconds =
     ((((days * 24 + hours) * 60 + minutes) * 60 + seconds) * 1000 + milliseconds) * 1000
       + microseconds"

text \<open>
  Modelled from the spec: the sentinels \<open>Datetime::min()\<close> and \<open>Datetime::max()\<close>
  (datetime/Datetime.h is not among the source files). Instants are counted from the
  first; the second is taken 3141084 days later (1400-01-01 and 9999-12-31, the range of
  the date library). The scheduler only compares an end date with it, so nothing below
  depends on the distance.
\<close>

definition Datetime_min :: Datetime where
  "Datetime_min = 0"

definition Datetime_max :: Datetime where
  "Datetime_max = TimeDelta 3141084 0 0 0 0 0"

definition startOfDay :: "Datetime \<Rightarrow> Datetime" where
  "startOfDay d = d - d mod TimeDelta 1 0 0 0 0 0"

definition INT_MAX :: int where
  "INT_MAX = 2147483647"

subsection \<open>State of the scheduler\<close>

record 'f Timer =
  m_start_date :: Datetime
  m_end_date :: Datetime
  m_start_time :: TimeDelta
  m_end_time :: TimeDelta
  m_duration :: TimeDelta
  m_repeat_num :: int
  m_func :: 'f

record IntervalS =
  m_time_point :: Datetime
  m_timer_id :: int

text \<open>
  \<open>m_timers\<close> (an unordered map from id to timer) is an association list with one
  entry per key: \<open>map_of\<close> is \<open>find\<close>, \<open>AList.update\<close> is \<open>m_timers[id] = t\<close>,
  \<open>AList.delete\<close> is \<open>erase\<close> and \<open>length\<close> is \<open>size()\<close>. \<open>m_queue\<close> (a priority
  queue whose top is an entry of least time point) is the list of its entries. The mutex,
  the condition variable and the thread pool are not state of the model: every operation
  below runs with the lock held, and a submitted callback is reported in the outcome.
\<close>

record 'f TimerManager =
  m_queue :: "IntervalS list"
  m_stop :: bool
  m_timers :: "(int \<times> 'f Timer) list"
  m_current_timer_id :: int

definition queue_top :: "IntervalS list \<Rightarrow> IntervalS" where
  "queue_top q = arg_min_list m_time_point q"

definition queue_pop :: "IntervalS list \<Rightarrow> IntervalS list" where
  "queue_pop q = remove1 (queue_top q) q"

definition queue_push :: "IntervalS \<Rightarrow> IntervalS list \<Rightarrow> IntervalS list" where
  "queue_push s q = q @ [s]"

datatype exception =
  CheckError string
| Exception string

text \<open>
  An operation that can throw returns the exception (or \<open>None\<close> when it returns
  normally) together with the state it leaves behind.
\<close>

type_synonym 'f outcome = "exception option \<times> 'f TimerManager"

subsection \<open>Identifier allocation\<close>

text \<open>The \<open>while (true)\<close> loop of getNewTimerId; \<open>None\<close> is a loop that never ends.\<close>

partial_function (option) probe_free_id :: "(int \<times> 'f Timer) list \<Rightarrow> int \<Rightarrow> int option" where
  "probe_free_id timers cur =
     (if map_of timers cur \<noteq> None
      then probe_free_id timers (if cur \<ge> INT_MAX then 0 else cur + 1)
      else Some cur)"

definition getNewTimerId :: "'f TimerManager \<Rightarrow> (int \<times> 'f TimerManager) option" where
  "getNewTimerId tm =
     (if int (length (m_timers tm)) \<ge> INT_MAX then Some (- 1, tm)
      else
        case probe_free_id (m_timers tm)
               (if m_current_timer_id tm \<ge> INT_MAX then 0 else m_current_timer_id tm + 1) of
          None \<Rightarrow> None
        | Some c \<Rightarrow> Some (c, tm\<lparr>m_current_timer_id := c\<rparr>))"

definition removeTimer :: "int \<Rightarrow> 'f TimerManager \<Rightarrow> 'f TimerManager" where
  "removeTimer tid tm = tm\<lparr>m_timers := AList.delete tid (m_timers tm)\<rparr>"

subsection \<open>Submission\<close>

text \<open>\<open>now\<close> is the value that \<open>Datetime::now()\<close> returns in the call.\<close>

definition p_addFunc ::
  "Datetime \<Rightarrow> Datetime \<Rightarrow> Datetime \<Rightarrow> TimeDelta \<Rightarrow> TimeDelta \<Rightarrow> int \<Rightarrow> TimeDelta \<Rightarrow> 'f
     \<Rightarrow> 'f TimerManager \<Rightarrow> 'f outcome option" where
  "p_addFunc now start_date end_date start_time end_time repeat_num duration f tm =
     (let t = \<lparr>m_start_date = start_date, m_end_date = end_date, m_start_time = start_time,
                m_end_time = end_time, m_duration = duration, m_repeat_num = repeat_num,
                m_func = f\<rparr>;
          time_point = now + duration
      in case getNewTimerId tm of
           None \<Rightarrow> None
         | Some (tid, tm1) \<Rightarrow>
             if tid < 0 then Some (Some (Exception ''Failed to get new id, maybe too timers!''), tm1)
             else Some (None,
                    tm1\<lparr>m_timers := AList.update tid t (m_timers tm1),
                        m_queue := queue_push \<lparr>m_time_point = time_point, m_timer_id = tid\<rparr>
                                     (m_queue tm1)\<rparr>))"

definition addFunc ::
  "Datetime \<Rightarrow> Datetime option \<Rightarrow> Datetime option \<Rightarrow> TimeDelta \<Rightarrow> TimeDelta \<Rightarrow> int
     \<Rightarrow> TimeDelta \<Rightarrow> 'f \<Rightarrow> 'f TimerManager \<Rightarrow> 'f outcome option" where
  "addFunc now start_date end_date start_time end_time repeat_num duration f tm =
     (case start_date of
        None \<Rightarrow> Some (Some (CheckError ''Invalid start_date!''), tm)
      | Some sd \<Rightarrow>
     (case end_date of
        None \<Rightarrow> Some (Some (CheckError ''Invalid end_date!''), tm)
      | Some ed \<Rightarrow>
          if \<not> ed > sd then Some (Some (CheckError ''end_date need > start_date!''), tm)
          else if \<not> (start_time > TimeDelta 0 0 0 0 0 0
                      \<and> start_time \<le> TimeDelta 0 23 59 59 999 999)
            then Some (Some (CheckError ''Invalid start_time''), tm)
          else if \<not> (end_time > TimeDelta 0 0 0 0 0 0
                      \<and> end_time \<le> TimeDelta 0 23 59 59 999 999)
            then Some (Some (CheckError ''Invalid end_time''), tm)
          else if \<not> end_time \<ge> start_time
            then Some (Some (CheckError ''end_time need >= start_time!''), tm)
          else if \<not> repeat_num > 0 then Some (Some (CheckError ''Invalid repeat_num''), tm)
          else if \<not> duration > TimeDelta 0 0 0 0 0 0
            then Some (Some (CheckError ''Invalid duration''), tm)
          else p_addFunc now sd ed start_time end_time repeat_num duration f tm))"

definition addDurationFunc ::
  "Datetime \<Rightarrow> int \<Rightarrow> TimeDelta \<Rightarrow> 'f \<Rightarrow> 'f TimerManager \<Rightarrow> 'f outcome option" where
  "addDurationFunc now repeat_num duration f tm =
     (if \<not> repeat_num > 0 then Some (Some (CheckError ''Invalid repeat_num, must > 0''), tm)
      else if \<not> duration > TimeDelta 0 0 0 0 0 0
        then Some (Some (CheckError ''Invalid duration, must > TimeDelta(0)!''), tm)
      else p_addFunc now Datetime_min Datetime_max (TimeDelta 0 0 0 0 0 0)
             (TimeDelta 0 0 0 0 0 0) repeat_num duration f tm)"

definition addDelayFunc ::
  "Datetime \<Rightarrow> TimeDelta \<Rightarrow> 'f \<Rightarrow> 'f TimerManager \<Rightarrow> 'f outcome option" where
  "addDelayFunc now delay f tm =
     (if \<not> delay > TimeDelta 0 0 0 0 0 0
        then Some (Some (CheckError ''Invalid delay, must > TimeDelta(0)!''), tm)
      else p_addFunc now Datetime_min Datetime_max (TimeDelta 0 0 0 0 0 0)
             (TimeDelta 0 0 0 0 0 0) 1 delay f tm)"

definition addFuncAtPoint ::
  "Datetime \<Rightarrow> Datetime option \<Rightarrow> 'f \<Rightarrow> 'f TimerManager \<Rightarrow> 'f outcome option" where
  "addFuncAtPoint now time_point f tm =
     (case time_point of
        None \<Rightarrow> Some (Some (CheckError ''Invalid time_point''), tm)
      | Some tp \<Rightarrow>
          (let delay = TimeDelta 0 0 0 0 100 0;
               run_point = tp - delay;
               date = startOfDay run_point;
               time = run_point - date
           in p_addFunc now date Datetime_max time (TimeDelta 0 23 59 59 999 999) 1 delay f tm))"

subsection \<open>The detect thread\<close>

text \<open>
  One pass through the body of the \<open>while (!m_stop)\<close> loop of detectThread, with
  \<open>now\<close> the clock reading of that pass. The outcome says how the pass ended: waiting
  on the condition variable, waiting for a duration, dropping a stale queue entry, or
  submitting a callback to the thread pool.
\<close>

datatype 'f pass = WaitCond | WaitFor TimeDelta | Stale | Submitted 'f

definition detectThread_pass :: "Datetime \<Rightarrow> 'f TimerManager \<Rightarrow> 'f pass \<times> 'f TimerManager" where
  "detectThread_pass now tm =
     (if m_queue tm = [] then (WaitCond, tm)
      else
        let s = queue_top (m_queue tm);
            diff = m_time_point s - now
        in if diff > TimeDelta 0 0 0 0 0 0 then (WaitFor diff, tm)
           else
             let tm1 = tm\<lparr>m_queue := queue_pop (m_queue tm)\<rparr>
             in case map_of (m_timers tm1) (m_timer_id s) of
                  None \<Rightarrow> (Stale, tm1)
                | Some timer0 \<Rightarrow>
                    let timer = (if m_repeat_num timer0 \<noteq> INT_MAX
                                 then timer0\<lparr>m_repeat_num := m_repeat_num timer0 - 1\<rparr>
                                 else timer0);
                        tm2 = tm1\<lparr>m_timers := AList.update (m_timer_id s) timer (m_timers tm1)\<rparr>
                    in if m_repeat_num timer \<le> 0
                         then (Submitted (m_func timer), removeTimer (m_timer_id s) tm2)
                       else
                         let next_point = m_time_point s + m_duration timer
                         in if m_end_date timer \<noteq> Datetime_max
                               \<and> next_point > m_end_date timer + m_end_time timer
                              then (Submitted (m_func timer), removeTimer (m_timer_id s) tm2)
                            else
                              let today = startOfDay now;
                                  rolled =
                                    (if m_start_time timer \<noteq> m_end_time timer
                                        \<and> next_point > today + m_end_time timer
                                     then today + m_start_time timer + TimeDelta 1 0 0 0 0 0
                                     else next_point)
                              in (Submitted (m_func timer),
                                  tm2\<lparr>m_queue := queue_push (s\<lparr>m_time_point := rolled\<rparr>)
                                                   (m_queue tm2)\<rparr>))"

text \<open>
  The loop itself, over the clock readings of its passes: it leaves as soon as
  \<open>m_stop\<close> is set, and reports the outcome of every pass.
\<close>

fun detectThread :: "Datetime list \<Rightarrow> 'f TimerManager \<Rightarrow> 'f pass list \<times> 'f TimerManager" where
  "detectThread [] tm = ([], tm)"
| "detectThread (now # clock) tm =
     (if m_stop tm then ([], tm)
      else
        let (p, tm1) = detectThread_pass now tm;
            (ps, tm2) = detectThread clock tm1
        in (p # ps, tm2))"


section \<open>Trading system (class System)\<close>

subsection \<open>Value types\<close>

text \<open>
  \<open>price_t\<close> and every quantity are C++ doubles, read here as real numbers. In this
  part a \<open>Datetime\<close> value may be null (a cleared request holds one), so it is a
  \<open>Datetime option\<close>. The fields of a bar that the source reads have the source's names;
  volume and amount are named as in the specification.
\<close>

type_synonym price_t = real

text \<open>
  Modelled from the spec: the tag of the part of the system that a trade comes from (the
  enumeration is declared outside the source files): the tags that the source names, and
  \<open>PART_INVALID\<close> for the tag of a default-constructed record or request.
\<close>

datatype Part =
  PART_ENVIRONMENT | PART_CONDITION | PART_SIGNAL | PART_STOPLOSS | PART_TAKEPROFIT
| PART_PROFITGOAL | PART_ALLOCATEFUNDS | PART_PORTFOLIO | PART_INVALID

text \<open>
  Modelled from the spec: the business kinds of a TradeRecord (TradeRecord.h is not among
  the source files); \<open>BUSINESS_NONE\<close> is the kind that means that there is no trade.
\<close>

datatype BUSINESS =
  BUSINESS_INIT | BUSINESS_BUY | BUSINESS_SELL | BUSINESS_BUY_SHORT | BUSINESS_SELL_SHORT
| BUSINESS_NONE

record KRecord =
  datetime :: "Datetime option"
  openPrice :: price_t
  highPrice :: price_t
  lowPrice :: price_t
  closePrice :: price_t
  volume :: price_t
  amount :: price_t

text \<open>
  Modelled from the spec: \<open>KRecord(datetime)\<close>, the constructor that sets the datetime
  alone (KRecord.h is not among the source files); every price and volume is zero.
\<close>

definition KRecord_at :: "Datetime option \<Rightarrow> KRecord" where
  "KRecord_at d =
     \<lparr>datetime = d, openPrice = 0, highPrice = 0, lowPrice = 0, closePrice = 0,
      volume = 0, amount = 0\<rparr>"

text \<open>
  Modelled from the spec: the fields of TradeRecord, PositionRecord and OrderRequest that
  the system reads or writes, named as in the source with a prefix per record
  (\<open>tr_\<close>, \<open>pos_\<close>, \<open>req_\<close>); a default-constructed TradeRecord has business
  \<open>BUSINESS_NONE\<close>, and \<open>isNull\<close> holds of a record of that business; \<open>clear()\<close>
  puts an OrderRequest back into its default, invalid state.
\<close>

record TradeRecord =
  tr_datetime :: "Datetime option"
  tr_business :: BUSINESS
  tr_planPrice :: price_t
  tr_realPrice :: price_t
  tr_goalPrice :: price_t
  tr_number :: real
  tr_stoploss :: price_t
  tr_from :: Part

definition TradeRecord_null :: TradeRecord where
  "TradeRecord_null =
     \<lparr>tr_datetime = None, tr_business = BUSINESS_NONE, tr_planPrice = 0, tr_realPrice = 0,
      tr_goalPrice = 0, tr_number = 0, tr_stoploss = 0, tr_from = PART_INVALID\<rparr>"

definition isNull :: "TradeRecord \<Rightarrow> bool" where
  "isNull r = (tr_business r = BUSINESS_NONE)"

record PositionRecord =
  pos_number :: real
  pos_stoploss :: price_t
  pos_goalPrice :: price_t

record OrderRequest =
  req_valid :: bool
  req_business :: BUSINESS
  req_datetime :: "Datetime option"
  req_stoploss :: price_t
  req_goal :: price_t
  req_number :: real
  req_from :: Part
  req_count :: int

definition OrderRequest_clear :: OrderRequest where
  "OrderRequest_clear =
     \<lparr>req_valid = False, req_business = BUSINESS_NONE, req_datetime = None, req_stoploss = 0,
      req_goal = 0, req_number = 0, req_from = PART_INVALID, req_count = 0\<rparr>"

text \<open>
  Modelled from the spec: of a Stock (declared outside the source files) the system reads
  the least and the greatest number that one trade may have.
\<close>

record Stock =
  minTradeNumber :: real
  maxTradeNumber :: real

subsection \<open>Parameters\<close>

text \<open>
  The named parameters that \<open>initParam\<close> sets and \<open>getParam\<close> reads, with their
  defaults.
\<close>

record Params =
  max_delay_count :: int
  delay :: bool
  delay_use_current_price :: bool
  tp_monotonic :: bool
  tp_delay_n :: int
  ignore_sell_sg :: bool
  can_trade_when_high_eq_low :: bool
  ev_open_position :: bool
  cn_open_position :: bool
  support_borrow_cash :: bool
  support_borrow_stock :: bool

definition initParam :: Params where
  "initParam =
     \<lparr>max_delay_count = 3, delay = True, delay_use_current_price = True,
      tp_monotonic = True, tp_delay_n = 3, ignore_sell_sg = False,
      can_trade_when_high_eq_low = False, ev_open_position = False,
      cn_open_position = False, support_borrow_cash = False,
      support_borrow_stock = False\<rparr>"

subsection \<open>Collaborators\<close>

text \<open>
  The trade manager and the strategy components (\<open>m_tm\<close>, \<open>m_mm\<close>, \<open>m_ev\<close>,
  \<open>m_cn\<close>, \<open>m_sg\<close>, \<open>m_st\<close>, \<open>m_tp\<close>, \<open>m_pg\<close>, \<open>m_sp\<close>) and the inline helpers of
  System.h that forward to them are not among the source files. They are parameters of the
  model: \<open>'w\<close> is the joint state of these objects and a \<open>Collaborators\<close> value gives
  what each call returns in a state. The queries read the state; the trading methods of
  the trade manager and the notifications also change it. A component that is absent (a
  null pointer that the source tests before a notification) is a function that leaves
  the state as it is.
\<close>

record 'w Collaborators =
  p_environmentIsValid :: "'w \<Rightarrow> Datetime option \<Rightarrow> bool"
  p_conditionIsValid :: "'w \<Rightarrow> Datetime option \<Rightarrow> bool"
  sg_shouldBuy :: "'w \<Rightarrow> Datetime option \<Rightarrow> bool"
  sg_shouldSell :: "'w \<Rightarrow> Datetime option \<Rightarrow> bool"
  p_getStoplossPrice :: "'w \<Rightarrow> Datetime option \<Rightarrow> price_t \<Rightarrow> price_t"
  p_getShortStoplossPrice :: "'w \<Rightarrow> Datetime option \<Rightarrow> price_t \<Rightarrow> price_t"
  p_getTakeProfitPrice :: "'w \<Rightarrow> Datetime option \<Rightarrow> price_t"
  p_getGoalPrice :: "'w \<Rightarrow> Datetime option \<Rightarrow> price_t \<Rightarrow> price_t"
  p_getShortGoalPrice :: "'w \<Rightarrow> Datetime option \<Rightarrow> price_t \<Rightarrow> price_t"
  p_getRealBuyPrice :: "'w \<Rightarrow> Datetime option \<Rightarrow> price_t \<Rightarrow> price_t"
  p_getRealSellPrice :: "'w \<Rightarrow> Datetime option \<Rightarrow> price_t \<Rightarrow> price_t"
  p_getBuyNumber :: "'w \<Rightarrow> Datetime option \<Rightarrow> price_t \<Rightarrow> price_t \<Rightarrow> Part \<Rightarrow> real"
  p_getSellNumber :: "'w \<Rightarrow> Datetime option \<Rightarrow> price_t \<Rightarrow> price_t \<Rightarrow> Part \<Rightarrow> real"
  p_getBuyShortNumber :: "'w \<Rightarrow> Datetime option \<Rightarrow> price_t \<Rightarrow> price_t \<Rightarrow> Part \<Rightarrow> real"
  p_getSellShortNumber :: "'w \<Rightarrow> Datetime option \<Rightarrow> price_t \<Rightarrow> price_t \<Rightarrow> Part \<Rightarrow> real"
  tm_have :: "'w \<Rightarrow> Stock \<Rightarrow> bool"
  tm_getPosition :: "'w \<Rightarrow> Stock \<Rightarrow> PositionRecord"
  tm_getShortPosition :: "'w \<Rightarrow> Stock \<Rightarrow> PositionRecord"
  tm_getHoldNumber :: "'w \<Rightarrow> Datetime option \<Rightarrow> Stock \<Rightarrow> real"
  tm_buy :: "'w \<Rightarrow> Datetime option \<Rightarrow> Stock \<Rightarrow> price_t \<Rightarrow> real \<Rightarrow> price_t \<Rightarrow> price_t
               \<Rightarrow> price_t \<Rightarrow> Part \<Rightarrow> TradeRecord \<times> 'w"
  tm_sell :: "'w \<Rightarrow> Datetime option \<Rightarrow> Stock \<Rightarrow> price_t \<Rightarrow> real \<Rightarrow> price_t \<Rightarrow> price_t
               \<Rightarrow> price_t \<Rightarrow> Part \<Rightarrow> TradeRecord \<times> 'w"
  tm_buyShort :: "'w \<Rightarrow> Datetime option \<Rightarrow> Stock \<Rightarrow> price_t \<Rightarrow> real \<Rightarrow> price_t \<Rightarrow> price_t
               \<Rightarrow> price_t \<Rightarrow> Part \<Rightarrow> TradeRecord \<times> 'w"
  mm_buyNotify :: "'w \<Rightarrow> TradeRecord \<Rightarrow> 'w"
  pg_buyNotify :: "'w \<Rightarrow> TradeRecord \<Rightarrow> 'w"
  mm_sellNotify :: "'w \<Rightarrow> TradeRecord \<Rightarrow> 'w"
  pg_sellNotify :: "'w \<Rightarrow> TradeRecord \<Rightarrow> 'w"

subsection \<open>State of the system\<close>

text \<open>
  The fields of System that the operations below read or write, and \<open>m_plugins\<close>, the
  joint state of the collaborators. The day counters and the retry counts are C++ ints,
  read here as integers: they count bars.
\<close>

record 'w System =
  m_params :: Params
  m_stock :: Stock
  m_pre_ev_valid :: bool
  m_pre_cn_valid :: bool
  m_buy_days :: int
  m_sell_short_days :: int
  m_trade_list :: "TradeRecord list"
  m_lastTakeProfit :: price_t
  m_lastShortTakeProfit :: price_t
  m_buyRequest :: OrderRequest
  m_sellRequest :: OrderRequest
  m_sellShortRequest :: OrderRequest
  m_buyShortRequest :: OrderRequest
  m_plugins :: 'w

definition clearDelayRequest :: "'w System \<Rightarrow> 'w System" where
  "clearDelayRequest s =
     s\<lparr>m_buyRequest := OrderRequest_clear, m_sellRequest := OrderRequest_clear,
       m_sellShortRequest := OrderRequest_clear, m_buyShortRequest := OrderRequest_clear\<rparr>"

definition haveDelayRequest :: "'w System \<Rightarrow> bool" where
  "haveDelayRequest s =
     (req_valid (m_buyRequest s) \<or> req_valid (m_sellRequest s)
      \<or> req_valid (m_sellShortRequest s) \<or> req_valid (m_buyShortRequest s))"

definition p_buyNotifyAll :: "'w Collaborators \<Rightarrow> TradeRecord \<Rightarrow> 'w \<Rightarrow> 'w" where
  "p_buyNotifyAll P record w = pg_buyNotify P (mm_buyNotify P w record) record"

definition p_sellNotifyAll :: "'w Collaborators \<Rightarrow> TradeRecord \<Rightarrow> 'w \<Rightarrow> 'w" where
  "p_sellNotifyAll P record w = pg_sellNotify P (mm_sellNotify P w record) record"


subsection \<open>Long side: buying\<close>

definition p_submitBuyRequest ::
  "'w Collaborators \<Rightarrow> KRecord \<Rightarrow> Part \<Rightarrow> 'w System \<Rightarrow> 'w System" where
  "p_submitBuyRequest P today from s =
     (let w = m_plugins s; r = m_buyRequest s
      in if req_valid r then
           if req_count r > max_delay_count (m_params s)
             then s\<lparr>m_buyRequest := OrderRequest_clear\<rparr>
           else
             let stoploss = p_getStoplossPrice P w (datetime today) (closePrice today)
             in s\<lparr>m_buyRequest := r
                  \<lparr>req_count := req_count r + 1,
                   req_datetime := datetime today,
                   req_stoploss := stoploss,
                   req_goal := p_getGoalPrice P w (datetime today) (closePrice today),
                   req_number := p_getBuyNumber P w (datetime today) (closePrice today)
                                   (closePrice today - stoploss) (req_from r)\<rparr>\<rparr>
         else
           let stoploss = p_getStoplossPrice P w (datetime today) (closePrice today)
           in s\<lparr>m_buyRequest := r
                \<lparr>req_valid := True,
                 req_business := BUSINESS_BUY,
                 req_datetime := datetime today,
                 req_stoploss := stoploss,
                 req_goal := p_getGoalPrice P w (datetime today) (closePrice today),
                 req_number := p_getBuyNumber P w (datetime today) (closePrice today)
                                 (closePrice today - stoploss) from,
                 req_from := from,
                 req_count := 1\<rparr>\<rparr>)"

definition p_buyNow ::
  "'w Collaborators \<Rightarrow> KRecord \<Rightarrow> Part \<Rightarrow> 'w System \<Rightarrow> TradeRecord \<times> 'w System" where
  "p_buyNow P today from s =
     (let result = TradeRecord_null;
          w = m_plugins s;
          planPrice = closePrice today;
          stoploss = p_getStoplossPrice P w (datetime today) planPrice
      in if planPrice \<le> stoploss then (result, s)
         else
           let number = p_getBuyNumber P w (datetime today) planPrice (planPrice - stoploss) from
           in if number = 0 \<or> number > maxTradeNumber (m_stock s) then (result, s)
              else
                let min_num = minTradeNumber (m_stock s);
                    number = (if min_num > 1 then number / min_num * min_num else number);
                    realPrice = p_getRealBuyPrice P w (datetime today) planPrice;
                    goalPrice = p_getGoalPrice P w (datetime today) planPrice;
                    (record, w1) = tm_buy P w (datetime today) (m_stock s) realPrice number
                                     stoploss goalPrice planPrice from
                in if BUSINESS_BUY \<noteq> tr_business record then (result, s\<lparr>m_plugins := w1\<rparr>)
                   else
                     (record,
                      s\<lparr>m_lastTakeProfit := p_getTakeProfitPrice P w1 (tr_datetime record),
                        m_trade_list := m_trade_list s @ [record],
                        m_plugins := p_buyNotifyAll P record w1\<rparr>))"

definition p_buy ::
  "'w Collaborators \<Rightarrow> KRecord \<Rightarrow> Part \<Rightarrow> 'w System \<Rightarrow> TradeRecord \<times> 'w System" where
  "p_buy P today from s =
     (if delay (m_params s) then (TradeRecord_null, p_submitBuyRequest P today from s)
      else p_buyNow P today from s)"

definition p_buyDelay ::
  "'w Collaborators \<Rightarrow> KRecord \<Rightarrow> 'w System \<Rightarrow> TradeRecord \<times> 'w System" where
  "p_buyDelay P today s =
     (let result = TradeRecord_null;
          w = m_plugins s
      in if highPrice today = lowPrice today \<and> \<not> can_trade_when_high_eq_low (m_params s)
           then (result,
                 p_submitBuyRequest P (KRecord_at (req_datetime (m_buyRequest s)))
                   (req_from (m_buyRequest s)) s)
         else
           let planPrice = openPrice today;
               (stoploss, number, goalPrice) =
                 (if delay_use_current_price (m_params s) then
                    let stoploss = p_getStoplossPrice P w (datetime today) planPrice
                    in (stoploss,
                        p_getBuyNumber P w (datetime today) planPrice (planPrice - stoploss)
                          (req_from (m_buyRequest s)),
                        p_getGoalPrice P w (datetime today) planPrice)
                  else (req_stoploss (m_buyRequest s), req_number (m_buyRequest s),
                        req_goal (m_buyRequest s)))
           in if planPrice \<le> stoploss \<or> number = 0
                then (result, s\<lparr>m_buyRequest := OrderRequest_clear\<rparr>)
              else
                let min_num = minTradeNumber (m_stock s);
                    number = (if min_num > 1 then number / min_num * min_num else number);
                    realPrice = p_getRealBuyPrice P w (datetime today) planPrice;
                    (record, w1) = tm_buy P w (datetime today) (m_stock s) realPrice number
                                     stoploss goalPrice planPrice (req_from (m_buyRequest s))
                in if BUSINESS_BUY \<noteq> tr_business record
                     then (result, s\<lparr>m_buyRequest := OrderRequest_clear, m_plugins := w1\<rparr>)
                   else
                     (record,
                      s\<lparr>m_buy_days := 0,
                        m_lastTakeProfit := realPrice,
                        m_trade_list := m_trade_list s @ [record],
                        m_plugins := p_buyNotifyAll P record w1,
                        m_buyRequest := OrderRequest_clear\<rparr>))"

subsection \<open>Long side: selling\<close>

definition p_submitSellRequest ::
  "'w Collaborators \<Rightarrow> KRecord \<Rightarrow> Part \<Rightarrow> 'w System \<Rightarrow> 'w System" where
  "p_submitSellRequest P today from s =
     (let w = m_plugins s; r = m_sellRequest s
      in if req_valid r \<and> req_count r > max_delay_count (m_params s)
           then s\<lparr>m_sellRequest := OrderRequest_clear\<rparr>
         else
           let r1 = (if req_valid r then r\<lparr>req_count := req_count r + 1\<rparr>
                     else r\<lparr>req_valid := True, req_business := BUSINESS_SELL, req_count := 1\<rparr>);
               stoploss = p_getStoplossPrice P w (datetime today) (closePrice today)
           in s\<lparr>m_sellRequest := r1
                \<lparr>req_from := from,
                 req_datetime := datetime today,
                 req_stoploss := stoploss,
                 req_number :=
                   (if closePrice today \<le> stoploss
                    then tm_getHoldNumber P w (datetime today) (m_stock s)
                    else p_getSellNumber P w (datetime today) (closePrice today)
                           (closePrice today - stoploss) from),
                 req_goal := p_getGoalPrice P w (datetime today) (closePrice today)\<rparr>\<rparr>)"

definition p_sellNow ::
  "'w Collaborators \<Rightarrow> KRecord \<Rightarrow> Part \<Rightarrow> 'w System \<Rightarrow> TradeRecord \<times> 'w System" where
  "p_sellNow P today from s =
     (let result = TradeRecord_null;
          w = m_plugins s;
          planPrice = closePrice today;
          stoploss = p_getStoplossPrice P w (datetime today) planPrice;
          number = (if planPrice \<le> stoploss
                    then tm_getHoldNumber P w (datetime today) (m_stock s)
                    else p_getSellNumber P w (datetime today) planPrice (planPrice - stoploss)
                           from)
      in if \<not> planPrice \<le> stoploss \<and> number = 0 then (result, s)
         else
           let goalPrice = p_getGoalPrice P w (datetime today) planPrice;
               realPrice = p_getRealSellPrice P w (datetime today) planPrice;
               (record, w1) = tm_sell P w (datetime today) (m_stock s) realPrice number
                                stoploss goalPrice planPrice from
           in if BUSINESS_SELL \<noteq> tr_business record then (result, s\<lparr>m_plugins := w1\<rparr>)
              else
                (record,
                 s\<lparr>m_lastTakeProfit :=
                     (if \<not> tm_have P w1 (m_stock s) then 0
                      else p_getTakeProfitPrice P w1 (datetime today)),
                   m_trade_list := m_trade_list s @ [record],
                   m_plugins := p_sellNotifyAll P record w1\<rparr>))"

definition p_sell ::
  "'w Collaborators \<Rightarrow> KRecord \<Rightarrow> Part \<Rightarrow> 'w System \<Rightarrow> TradeRecord \<times> 'w System" where
  "p_sell P today from s =
     (if delay (m_params s) then (TradeRecord_null, p_submitSellRequest P today from s)
      else p_sellNow P today from s)"

definition p_sellDelay ::
  "'w Collaborators \<Rightarrow> KRecord \<Rightarrow> 'w System \<Rightarrow> TradeRecord \<times> 'w System" where
  "p_sellDelay P today s =
     (let result = TradeRecord_null;
          w = m_plugins s
      in if highPrice today = lowPrice today \<and> \<not> can_trade_when_high_eq_low (m_params s)
           then (result,
                 p_submitSellRequest P (KRecord_at (req_datetime (m_sellRequest s)))
                   (req_from (m_sellRequest s)) s)
         else
           let planPrice = openPrice today;
               from = req_from (m_sellRequest s);
               (stoploss, number, goalPrice) =
                 (if delay_use_current_price (m_params s) then
                    let stoploss = p_getStoplossPrice P w (datetime today) planPrice
                    in (stoploss,
                        (if planPrice < stoploss
                         then tm_getHoldNumber P w (datetime today) (m_stock s)
                         else p_getSellNumber P w (datetime today) planPrice
                                (planPrice - stoploss) from),
                        p_getGoalPrice P w (datetime today) planPrice)
                  else (req_stoploss (m_sellRequest s), req_number (m_sellRequest s),
                        req_goal (m_sellRequest s)))
           in if number = 0 then (result, s\<lparr>m_sellRequest := OrderRequest_clear\<rparr>)
              else
                let realPrice = p_getRealSellPrice P w (datetime today) planPrice;
                    (record, w1) = tm_sell P w (datetime today) (m_stock s) realPrice number
                                     stoploss goalPrice planPrice (req_from (m_sellRequest s))
                in if BUSINESS_SELL \<noteq> tr_business record
                     then (result, s\<lparr>m_sellRequest := OrderRequest_clear, m_plugins := w1\<rparr>)
                   else
                     (record,
                      s\<lparr>m_lastTakeProfit :=
                          (if \<not> tm_have P w1 (m_stock s) then 0 else m_lastTakeProfit s),
                        m_trade_list := m_trade_list s @ [record],
                        m_plugins := p_sellNotifyAll P record w1,
                        m_sellRequest := OrderRequest_clear\<rparr>))"


subsection \<open>Short side\<close>

definition p_submitBuyShortRequest ::
  "'w Collaborators \<Rightarrow> KRecord \<Rightarrow> Part \<Rightarrow> 'w System \<Rightarrow> 'w System" where
  "p_submitBuyShortRequest P today from s =
     (let w = m_plugins s; r = m_buyShortRequest s
      in if req_valid r then
           if req_count r > max_delay_count (m_params s)
             then s\<lparr>m_buyRequest := OrderRequest_clear\<rparr>
           else
             let stoploss = p_getShortStoplossPrice P w (datetime today) (closePrice today)
             in s\<lparr>m_buyShortRequest := r
                  \<lparr>req_count := req_count r + 1,
                   req_datetime := datetime today,
                   req_stoploss := stoploss,
                   req_goal := p_getShortGoalPrice P w (datetime today) (closePrice today),
                   req_number := p_getBuyShortNumber P w (datetime today) (closePrice today)
                                   (stoploss - closePrice today) (req_from r)\<rparr>\<rparr>
         else
           let stoploss = p_getShortStoplossPrice P w (datetime today) (closePrice today)
           in s\<lparr>m_buyShortRequest := r
                \<lparr>req_valid := True,
                 req_business := BUSINESS_BUY,
                 req_datetime := datetime today,
                 req_stoploss := stoploss,
                 req_goal := p_getShortGoalPrice P w (datetime today) (closePrice today),
                 req_number := p_getBuyShortNumber P w (datetime today) (closePrice today)
                                 (stoploss - closePrice today) from,
                 req_from := from,
                 req_count := 1\<rparr>\<rparr>)"

definition p_buyShortDelay ::
  "'w Collaborators \<Rightarrow> KRecord \<Rightarrow> 'w System \<Rightarrow> TradeRecord \<times> 'w System" where
  "p_buyShortDelay P today s =
     (let result = TradeRecord_null;
          w = m_plugins s
      in if highPrice today = lowPrice today then (result, s)
         else
           let planPrice = openPrice today;
               (stoploss, number, goalPrice) =
                 (if delay_use_current_price (m_params s) then
                    let stoploss = p_getShortStoplossPrice P w (req_datetime (m_buyRequest s))
                                     planPrice
                    in (stoploss,
                        p_getBuyShortNumber P w (datetime today) planPrice
                          (stoploss - planPrice) (req_from (m_buyRequest s)),
                        p_getShortGoalPrice P w (datetime today) planPrice)
                  else (req_stoploss (m_buyShortRequest s), req_number (m_buyShortRequest s),
                        req_goal (m_buyShortRequest s)))
           in if number = 0 then (result, s\<lparr>m_buyShortRequest := OrderRequest_clear\<rparr>)
              else
                let pos = tm_getShortPosition P w (m_stock s)
                in if pos_number pos = 0
                     then (result, s\<lparr>m_buyShortRequest := OrderRequest_clear\<rparr>)
                   else
                     let number = (if number > pos_number pos then pos_number pos else number);
                         realPrice = p_getRealBuyPrice P w (datetime today) planPrice;
                         (record, w1) = tm_buyShort P w (datetime today) (m_stock s) realPrice
                                          number stoploss goalPrice planPrice PART_SIGNAL
                     in if BUSINESS_BUY_SHORT \<noteq> tr_business record
                          then (result,
                                s\<lparr>m_buyShortRequest := OrderRequest_clear, m_plugins := w1\<rparr>)
                        else
                          (result,
                           s\<lparr>m_sell_short_days := 0,
                             m_lastTakeProfit := realPrice,
                             m_trade_list := m_trade_list s @ [record],
                             m_plugins := p_buyNotifyAll P record w1,
                             m_buyShortRequest := OrderRequest_clear\<rparr>))"

definition p_submitSellShortRequest ::
  "'w Collaborators \<Rightarrow> KRecord \<Rightarrow> Part \<Rightarrow> 'w System \<Rightarrow> 'w System" where
  "p_submitSellShortRequest P today from s =
     (let w = m_plugins s; r = m_sellShortRequest s
      in if req_valid r then
           if req_count r > max_delay_count (m_params s)
             then s\<lparr>m_sellShortRequest := OrderRequest_clear\<rparr>
           else
             let stoploss = p_getStoplossPrice P w (datetime today) (closePrice today)
             in s\<lparr>m_sellShortRequest := r
                  \<lparr>req_count := req_count r + 1,
                   req_datetime := datetime today,
                   req_stoploss := stoploss,
                   req_goal := p_getGoalPrice P w (datetime today) (closePrice today),
                   req_number := p_getSellNumber P w (datetime today) (closePrice today)
                                   (closePrice today - stoploss) (req_from r)\<rparr>\<rparr>
         else
           let stoploss = p_getStoplossPrice P w (datetime today) (closePrice today)
           in s\<lparr>m_sellShortRequest := r
                \<lparr>req_valid := True,
                 req_business := BUSINESS_SELL_SHORT,
                 req_datetime := datetime today,
                 req_stoploss := stoploss,
                 req_goal := p_getGoalPrice P w (datetime today) (closePrice today),
                 req_number := p_getSellNumber P w (datetime today) (closePrice today)
                                 (closePrice today - stoploss) (req_from r),
                 req_from := from,
                 req_count := 1\<rparr>\<rparr>)"

definition p_sellShortDelay ::
  "'w Collaborators \<Rightarrow> KRecord \<Rightarrow> 'w System \<Rightarrow> TradeRecord \<times> 'w System" where
  "p_sellShortDelay P today s =
     (let result = TradeRecord_null;
          w = m_plugins s
      in if highPrice today = lowPrice today
           then (result,
                 p_submitSellShortRequest P (KRecord_at (req_datetime (m_sellShortRequest s)))
                   (req_from (m_sellShortRequest s)) s)
         else
           let planPrice = openPrice today;
               (stoploss, number, goalPrice) =
                 (if delay_use_current_price (m_params s) then
                    let stoploss = p_getShortStoplossPrice P w (datetime today) planPrice
                    in (stoploss,
                        p_getSellShortNumber P w (datetime today) planPrice
                          (stoploss - planPrice) (req_from (m_sellShortRequest s)),
                        p_getShortGoalPrice P w (datetime today) planPrice)
                  else (req_stoploss (m_sellShortRequest s), req_number (m_sellShortRequest s),
                        req_goal (m_sellShortRequest s)))
           in if number = 0 then (result, s\<lparr>m_sellShortRequest := OrderRequest_clear\<rparr>)
              else
                let realPrice = p_getRealSellPrice P w (datetime today) planPrice;
                    (record, w1) = tm_sell P w (datetime today) (m_stock s) realPrice number
                                     stoploss goalPrice planPrice
                                     (req_from (m_sellShortRequest s))
                in if BUSINESS_SELL_SHORT \<noteq> tr_business record
                     then (result,
                           s\<lparr>m_sellShortRequest := OrderRequest_clear, m_plugins := w1\<rparr>)
                   else
                     (record,
                      s\<lparr>m_sell_short_days := 0,
                        m_lastShortTakeProfit := realPrice,
                        m_trade_list := m_trade_list s @ [record],
                        m_plugins := p_sellNotifyAll P record w1,
                        m_sellShortRequest := OrderRequest_clear\<rparr>))"

subsection \<open>One bar\<close>

definition p_processRequest ::
  "'w Collaborators \<Rightarrow> KRecord \<Rightarrow> 'w System \<Rightarrow> TradeRecord \<times> 'w System" where
  "p_processRequest P today s =
     (if req_valid (m_buyRequest s) then p_buyDelay P today s
      else if req_valid (m_sellRequest s) then p_sellDelay P today s
      else if req_valid (m_sellShortRequest s) then p_sellShortDelay P today s
      else if req_valid (m_buyShortRequest s) then p_buyShortDelay P today s
      else (TradeRecord_null, s))"

text \<open>
  \<open>pick tr result\<close> is the source's \<open>tr.isNull() ? result : tr\<close>, the value that
  every phase returns.
\<close>

definition pick :: "TradeRecord \<Rightarrow> TradeRecord \<Rightarrow> TradeRecord" where
  "pick tr result = (if isNull tr then result else tr)"

definition p_runMoment ::
  "'w Collaborators \<Rightarrow> KRecord \<Rightarrow> 'w System \<Rightarrow> TradeRecord \<times> 'w System" where
  "p_runMoment P today s =
     (if (highPrice today = lowPrice today \<or> closePrice today > highPrice today
          \<or> closePrice today < lowPrice today)
         \<and> \<not> can_trade_when_high_eq_low (m_params s)
        then (TradeRecord_null, s)
      else
        let (result, s1) = p_processRequest P today s;
            current_ev_valid = p_environmentIsValid P (m_plugins s1) (datetime today)
        in if \<not> current_ev_valid then
             let (tr, s2) = (if tm_have P (m_plugins s1) (m_stock s1)
                             then p_sell P today PART_ENVIRONMENT s1
                             else (TradeRecord_null, s1))
             in (pick tr result, s2\<lparr>m_pre_ev_valid := current_ev_valid\<rparr>)
           else if \<not> m_pre_ev_valid s1 \<and> ev_open_position (m_params s1) then
             let (tr, s2) = p_buy P today PART_ENVIRONMENT s1
             in (pick tr result, s2\<lparr>m_pre_ev_valid := current_ev_valid\<rparr>)
           else
             let s3 = s1\<lparr>m_pre_ev_valid := current_ev_valid\<rparr>;
                 current_cn_valid = p_conditionIsValid P (m_plugins s3) (datetime today)
             in if \<not> current_cn_valid then
                  let (tr, s4) = (if tm_have P (m_plugins s3) (m_stock s3)
                                  then p_sell P today PART_CONDITION s3
                                  else (TradeRecord_null, s3))
                  in (pick tr result, s4\<lparr>m_pre_cn_valid := current_cn_valid\<rparr>)
                else if \<not> m_pre_cn_valid s3 \<and> cn_open_position (m_params s3) then
                  let (tr, s4) = p_buy P today PART_CONDITION s3
                  in (pick tr result, s4\<lparr>m_pre_cn_valid := current_cn_valid\<rparr>)
                else
                  let s5 = s3\<lparr>m_pre_cn_valid := current_cn_valid\<rparr>
                  in if sg_shouldBuy P (m_plugins s5) (datetime today) then
                       let (tr, s6) = p_buy P today PART_SIGNAL s5
                       in (pick tr result, s6)
                     else if sg_shouldSell P (m_plugins s5) (datetime today) then
                       let (tr, s6) = (if tm_have P (m_plugins s5) (m_stock s5)
                                       then p_sell P today PART_SIGNAL s5
                                       else (TradeRecord_null, s5))
                       in (pick tr result, s6)
                     else
                       let current_price = closePrice today;
                           position = tm_getPosition P (m_plugins s5) (m_stock s5)
                       in if pos_number position \<noteq> 0 then
                            if current_price \<le> pos_stoploss position then
                              let (tr, s6) = p_sell P today PART_STOPLOSS s5
                              in (pick tr result, s6)
                            else if current_price
                                      \<ge> p_getGoalPrice P (m_plugins s5) (datetime today)
                                          current_price then
                              let (tr, s6) = p_sell P today PART_PROFITGOAL s5
                              in (pick tr result, s6)
                            else
                              let current_take_profile =
                                    p_getTakeProfitPrice P (m_plugins s5) (datetime today)
                              in if current_take_profile \<noteq> 0 then
                                   let (current_take_profile, s6) =
                                         (if current_take_profile < m_lastTakeProfit s5
                                          then (m_lastTakeProfit s5, s5)
                                          else (current_take_profile,
                                                s5\<lparr>m_lastTakeProfit := current_take_profile\<rparr>))
                                   in if current_price \<le> current_take_profile then
                                        let (tr, s7) = p_sell P today PART_TAKEPROFIT s6
                                        in (pick tr result, s7)
                                      else (pick TradeRecord_null result, s6)
                                 else (pick TradeRecord_null result, s5)
                          else (result, s5))"

definition runMoment ::
  "'w Collaborators \<Rightarrow> KRecord \<Rightarrow> 'w System \<Rightarrow> TradeRecord \<times> 'w System" where
  "runMoment P record s =
     p_runMoment P record
       (s\<lparr>m_buy_days := m_buy_days s + 1, m_sell_short_days := m_sell_short_days s + 1\<rparr>)"

text \<open>
  The calls of \<open>runMoment\<close> that the loop of \<open>System::run\<close> makes, one for each bar
  it hands over, in order: the trade that every call returns, and the final state.
\<close>

fun runMoments ::
  "'w Collaborators \<Rightarrow> KRecord list \<Rightarrow> 'w System \<Rightarrow> TradeRecord list \<times> 'w System" where
  "runMoments P [] s = ([], s)"
| "runMoments P (k # ks) s =
     (let (tr, s1) = runMoment P k s;
          (trs, s2) = runMoments P ks s1
      in (tr # trs, s2))"


section \<open>Notions used in the statements\<close>

text \<open>
  The validation rules of a timer, in the words of the specification: dates non-null,
  end date after start date, both times of day strictly between 0 and 24 hours, end time
  not before start time, at least one repetition, a positive duration.
\<close>

definition validation_rules ::
  "Datetime option \<Rightarrow> Datetime option \<Rightarrow> TimeDelta \<Rightarrow> TimeDelta \<Rightarrow> int \<Rightarrow> TimeDelta \<Rightarrow> bool" where
  "validation_rules start_date end_date start_time end_time repeat_num duration =
     (case (start_date, end_date) of
        (Some sd, Some ed) \<Rightarrow>
          ed > sd
          \<and> 0 < start_time \<and> start_time < TimeDelta 0 24 0 0 0 0
          \<and> 0 < end_time \<and> end_time < TimeDelta 0 24 0 0 0 0
          \<and> end_time \<ge> start_time
          \<and> repeat_num \<ge> 1
          \<and> duration > 0
      | _ \<Rightarrow> False)"

text \<open>
  A list that is another one with at most one element appended: how the trade list may
  change in one bar.
\<close>

definition ext :: "'a list \<Rightarrow> 'a list \<Rightarrow> bool" where
  "ext xs ys = (ys = xs \<or> (\<exists>t. ys = xs @ [t]))"

text \<open>
  The state invariant of the delay protocol: a request is pending only while the parameter
  \<open>delay\<close> is on. It holds after \<open>reset\<close> and after \<open>clearDelayRequest\<close>, where
  no request is pending, and every call of \<open>runMoment\<close> keeps it.
\<close>

definition delay_consistent :: "'w System \<Rightarrow> bool" where
  "delay_consistent s = (delay (m_params s) \<or> \<not> haveDelayRequest s)"

subsection \<open>Concrete schedulers\<close>

text \<open>A scheduler that holds \<open>INT_MAX\<close> timers, with the ids from 0 up.\<close>

definition full_manager :: "string TimerManager" where
  "full_manager =
     \<lparr>m_queue = [], m_stop = False,
      m_timers = map (\<lambda>i. (int i, \<lparr>m_start_date = Datetime_min, m_end_date = Datetime_max,
                                   m_start_time = 0, m_end_time = 0, m_duration = 1,
                                   m_repeat_num = INT_MAX, m_func = ''job''\<rparr>))
                   [0..<2147483647],
      m_current_timer_id = 2147483646\<rparr>"

text \<open>A running scheduler without timers, as the constructor and \<open>start\<close> leave it.\<close>

definition idle_manager :: "string TimerManager" where
  "idle_manager = \<lparr>m_queue = [], m_stop = False, m_timers = [], m_current_timer_id = - 1\<rparr>"

text \<open>
  A timer that repeats every hour for ever inside the daily window from 09:30 to 15:00,
  and a scheduler whose queue holds its next firing, at 14:45 of day 10.
\<close>

definition hourly :: "string Timer" where
  "hourly =
     \<lparr>m_start_date = Datetime_min, m_end_date = Datetime_max,
      m_start_time = TimeDelta 0 9 30 0 0 0, m_end_time = TimeDelta 0 15 0 0 0 0,
      m_duration = TimeDelta 0 1 0 0 0 0, m_repeat_num = INT_MAX, m_func = ''job''\<rparr>"

definition window_manager :: "string TimerManager" where
  "window_manager =
     \<lparr>m_queue = [\<lparr>m_time_point = TimeDelta 10 14 45 0 0 0, m_timer_id = 0\<rparr>],
      m_stop = False, m_timers = [(0, hourly)], m_current_timer_id = 0\<rparr>"

text \<open>
  A timer for the same window that runs once, one hour after it is added, and the
  scheduler that holds it after it was added at 02:00 of day 10.
\<close>

definition once :: "string Timer" where
  "once =
     \<lparr>m_start_date = TimeDelta 10 0 0 0 0 0, m_end_date = TimeDelta 20 0 0 0 0 0,
      m_start_time = TimeDelta 0 9 30 0 0 0, m_end_time = TimeDelta 0 15 0 0 0 0,
      m_duration = TimeDelta 0 1 0 0 0 0, m_repeat_num = 1, m_func = ''job''\<rparr>"

definition night_manager :: "string TimerManager" where
  "night_manager =
     \<lparr>m_queue = [\<lparr>m_time_point = TimeDelta 10 3 0 0 0 0, m_timer_id = 0\<rparr>],
      m_stop = False, m_timers = [(0, once)], m_current_timer_id = 0\<rparr>"

subsection \<open>Concrete collaborators and system states\<close>

text \<open>
  Collaborators for the concrete runs. Their state is the pair of the long and the short
  holding. The signal says buy on the bar of datetime 1 and sell on the bar of datetime
  2; the stoploss is one below the price, the goal five above it, the take-profit price
  is 9; there is no slippage; the money manager buys 100 and sells the whole holding;
  the trade manager accepts every order.
\<close>

definition demo_trade ::
  "BUSINESS \<Rightarrow> Datetime option \<Rightarrow> price_t \<Rightarrow> real \<Rightarrow> price_t \<Rightarrow> price_t \<Rightarrow> price_t \<Rightarrow> Part
     \<Rightarrow> TradeRecord" where
  "demo_trade b d realPrice number stoploss goalPrice planPrice from =
     \<lparr>tr_datetime = d, tr_business = b, tr_planPrice = planPrice, tr_realPrice = realPrice,
      tr_goalPrice = goalPrice, tr_number = number, tr_stoploss = stoploss, tr_from = from\<rparr>"

definition demo :: "(real \<times> real) Collaborators" where
  "demo =
     \<lparr>p_environmentIsValid = (\<lambda>w d. True),
      p_conditionIsValid = (\<lambda>w d. True),
      sg_shouldBuy = (\<lambda>w d. d = Some 1),
      sg_shouldSell = (\<lambda>w d. d = Some 2),
      p_getStoplossPrice = (\<lambda>w d p. p - 1),
      p_getShortStoplossPrice = (\<lambda>w d p. p + 1),
      p_getTakeProfitPrice = (\<lambda>w d. 9),
      p_getGoalPrice = (\<lambda>w d p. p + 5),
      p_getShortGoalPrice = (\<lambda>w d p. p - 5),
      p_getRealBuyPrice = (\<lambda>w d p. p),
      p_getRealSellPrice = (\<lambda>w d p. p),
      p_getBuyNumber = (\<lambda>w d p r f. 100),
      p_getSellNumber = (\<lambda>w d p r f. fst w),
      p_getBuyShortNumber = (\<lambda>w d p r f. 100),
      p_getSellShortNumber = (\<lambda>w d p r f. 100),
      tm_have = (\<lambda>w st. fst w \<noteq> 0),
      tm_getPosition = (\<lambda>w st. \<lparr>pos_number = fst w, pos_stoploss = 0, pos_goalPrice = 0\<rparr>),
      tm_getShortPosition =
        (\<lambda>w st. \<lparr>pos_number = snd w, pos_stoploss = 0, pos_goalPrice = 0\<rparr>),
      tm_getHoldNumber = (\<lambda>w d st. fst w),
      tm_buy = (\<lambda>w d st realPrice number stoploss goalPrice planPrice from.
                 (demo_trade BUSINESS_BUY d realPrice number stoploss goalPrice planPrice from,
                  (fst w + number, snd w))),
      tm_sell = (\<lambda>w d st realPrice number stoploss goalPrice planPrice from.
                 (demo_trade BUSINESS_SELL d realPrice number stoploss goalPrice planPrice from,
                  (fst w - number, snd w))),
      tm_buyShort = (\<lambda>w d st realPrice number stoploss goalPrice planPrice from.
                 (demo_trade BUSINESS_BUY_SHORT d realPrice number stoploss goalPrice planPrice
                    from,
                  (fst w, snd w - number))),
      mm_buyNotify = (\<lambda>w r. w),
      pg_buyNotify = (\<lambda>w r. w),
      mm_sellNotify = (\<lambda>w r. w),
      pg_sellNotify = (\<lambda>w r. w)\<rparr>"

text \<open>
  The same collaborators with a trade manager that answers \<open>sell\<close> with a record of
  business SELL_SHORT, which the delayed short-sell execution waits for.
\<close>

definition demo_short :: "(real \<times> real) Collaborators" where
  "demo_short =
     demo\<lparr>tm_sell := (\<lambda>w d st realPrice number stoploss goalPrice planPrice from.
                 (demo_trade BUSINESS_SELL_SHORT d realPrice number stoploss goalPrice planPrice
                    from,
                  (fst w, snd w + number)))\<rparr>"

text \<open>The bar of datetime \<open>d\<close> with the given open, high, low and close.\<close>

definition bar :: "Datetime \<Rightarrow> price_t \<Rightarrow> price_t \<Rightarrow> price_t \<Rightarrow> price_t \<Rightarrow> KRecord" where
  "bar d op hi lo cl =
     \<lparr>datetime = Some d, openPrice = op, highPrice = hi, lowPrice = lo, closePrice = cl,
      volume = 0, amount = 0\<rparr>"

text \<open>
  A system with the given parameters and holdings, no trade made and no request pending;
  the environment and the condition were valid on the bar before.
\<close>

definition fresh :: "Params \<Rightarrow> real \<times> real \<Rightarrow> (real \<times> real) System" where
  "fresh prm w =
     \<lparr>m_params = prm, m_stock = \<lparr>minTradeNumber = 100, maxTradeNumber = 1000000\<rparr>,
      m_pre_ev_valid = True, m_pre_cn_valid = True, m_buy_days = 0, m_sell_short_days = 0,
      m_trade_list = [], m_lastTakeProfit = 0, m_lastShortTakeProfit = 0,
      m_buyRequest = OrderRequest_clear, m_sellRequest = OrderRequest_clear,
      m_sellShortRequest = OrderRequest_clear, m_buyShortRequest = OrderRequest_clear,
      m_plugins = w\<rparr>"

text \<open>A request as a submission on the bar of datetime \<open>d\<close> leaves it, retried \<open>n\<close> times.\<close>

definition request :: "BUSINESS \<Rightarrow> Datetime \<Rightarrow> int \<Rightarrow> OrderRequest" where
  "request b d n =
     \<lparr>req_valid = True, req_business = b, req_datetime = Some d, req_stoploss = 9,
      req_goal = 15, req_number = 100, req_from = PART_SIGNAL, req_count = n\<rparr>"


section \<open>Properties of the timer scheduler\<close>

lemma probe_free_id_free: "map_of timers cur = None \<Longrightarrow> probe_free_id timers cur = Some cur"
  by (subst probe_free_id.simps) simp

lemma getNewTimerId_full:
  "INT_MAX \<le> int (length (m_timers tm)) \<Longrightarrow> getNewTimerId tm = Some (- 1, tm)"
  by (simp add: getNewTimerId_def)

lemma p_addFunc_full:
  "INT_MAX \<le> int (length (m_timers tm)) \<Longrightarrow>
   p_addFunc now sd ed st et rn d f tm
     = Some (Some (Exception ''Failed to get new id, maybe too timers!''), tm)"
  by (simp add: p_addFunc_def getNewTimerId_full)

lemma length_full_manager: "int (length (m_timers full_manager)) = 2147483647"
  unfolding full_manager_def by (simp del: upt_rec_numeral)

lemmas timer_simps =
  TimeDelta_def startOfDay_def INT_MAX_def Datetime_max_def Datetime_min_def
  queue_top_def queue_pop_def queue_push_def removeTimer_def

text \<open>
  C6, as the code has it. When a pass of the detect thread fires a timer that has a daily
  window (start time different from end time), that stays alive (repetitions left, end
  date not passed), and whose next instant (fired instant plus duration) lies after the
  end time of the day of the clock reading, then the callback is submitted and the
  entry goes back into the queue at the start of that day plus the start time plus
  \<open>TimeDelta(1)\<close>, which is one day: the start time of the next day, with no
  microsecond added.
\<close>

theorem detectThread_pass_rolls_to_next_day:
  assumes "m_queue tm \<noteq> []"
    and "m_time_point (queue_top (m_queue tm)) \<le> now"
    and "map_of (m_timers tm) (m_timer_id (queue_top (m_queue tm))) = Some timer"
    and "m_repeat_num timer = INT_MAX \<or> 1 < m_repeat_num timer"
    and "\<not> (m_end_date timer \<noteq> Datetime_max
            \<and> m_time_point (queue_top (m_queue tm)) + m_duration timer
                > m_end_date timer + m_end_time timer)"
    and "m_start_time timer \<noteq> m_end_time timer"
    and "m_time_point (queue_top (m_queue tm)) + m_duration timer
           > startOfDay now + m_end_time timer"
  shows "fst (detectThread_pass now tm) = Submitted (m_func timer)
       \<and> m_queue (snd (detectThread_pass now tm))
           = queue_push
               ((queue_top (m_queue tm))
                  \<lparr>m_time_point := startOfDay now + m_start_time timer + 86400000000\<rparr>)
               (queue_pop (m_queue tm))"
  using assms
  by (auto simp add: detectThread_pass_def Let_def TimeDelta_def INT_MAX_def)

theorem detectThread_pass_rolls_to_next_day_witness:
  "m_queue window_manager \<noteq> []
   \<and> m_time_point (queue_top (m_queue window_manager)) \<le> TimeDelta 10 14 45 0 0 0
   \<and> map_of (m_timers window_manager) (m_timer_id (queue_top (m_queue window_manager)))
       = Some hourly
   \<and> m_start_time hourly \<noteq> m_end_time hourly
   \<and> fst (detectThread_pass (TimeDelta 10 14 45 0 0 0) window_manager) = Submitted ''job''
   \<and> m_queue (snd (detectThread_pass (TimeDelta 10 14 45 0 0 0) window_manager))
       = [\<lparr>m_time_point = TimeDelta 11 9 30 0 0 0, m_timer_id = 0\<rparr>]"
  using detectThread_pass_rolls_to_next_day
          [of window_manager "TimeDelta 10 14 45 0 0 0" hourly]
  by (simp add: window_manager_def hourly_def timer_simps)

text \<open>
  C6 as stated fails: the timer of 09:30 to 15:00 that fires at 14:45 of day 10 with a
  duration of one hour is queued again for 09:30:00.000000 of day 11, not for
  09:30:00.000001.
\<close>

theorem detectThread_pass_no_extra_microsecond:
  "map m_time_point (m_queue (snd (detectThread_pass (TimeDelta 10 14 45 0 0 0) window_manager)))
     = [TimeDelta 11 9 30 0 0 0]
   \<and> TimeDelta 11 9 30 0 0 0 \<noteq> TimeDelta 11 9 30 0 0 1"
  by (simp add: detectThread_pass_def window_manager_def hourly_def timer_simps Let_def)

text \<open>
  C7 fails on the code. A timer with the daily window 09:30 to 15:00 and a duration of one
  hour is added through \<open>addFunc\<close> at 02:00 of day 10 while the scheduler runs. It is
  queued for 03:00, and the pass of the detect thread at 03:00 submits its callback: at a
  time of day before the start of the window.
\<close>

theorem addFunc_timer_fires_outside_window:
  "addFunc (TimeDelta 10 2 0 0 0 0) (Some (TimeDelta 10 0 0 0 0 0))
     (Some (TimeDelta 20 0 0 0 0 0)) (TimeDelta 0 9 30 0 0 0) (TimeDelta 0 15 0 0 0 0) 1
     (TimeDelta 0 1 0 0 0 0) ''job'' idle_manager
     = Some (None, night_manager)
   \<and> fst (detectThread [TimeDelta 10 3 0 0 0 0] night_manager) = [Submitted ''job'']
   \<and> TimeDelta 10 3 0 0 0 0 - startOfDay (TimeDelta 10 3 0 0 0 0) = TimeDelta 0 3 0 0 0 0
   \<and> TimeDelta 0 3 0 0 0 0 < m_start_time once"
  by (simp add: addFunc_def p_addFunc_def getNewTimerId_def probe_free_id_free
      idle_manager_def night_manager_def once_def detectThread_pass_def timer_simps Let_def)

text \<open>
  C8, as the code has it. \<open>addFunc\<close> enforces every validation rule: when one is
  violated it throws a check error and leaves the scheduler as it was, and otherwise it
  registers through \<open>p_addFunc\<close>. The convenience constructors do not go through
  \<open>addFunc\<close>: \<open>addDurationFunc\<close> checks the repeat number and the duration only,
  \<open>addDelayFunc\<close> the delay only, \<open>addFuncAtPoint\<close> only that the instant is not
  null, and each registers through \<open>p_addFunc\<close>, which checks nothing; the first two
  register a start time and an end time of zero.
\<close>

theorem submission_validation:
  "(validation_rules start_date end_date start_time end_time repeat_num duration \<longrightarrow>
      addFunc now start_date end_date start_time end_time repeat_num duration f tm
        = p_addFunc now (the start_date) (the end_date) start_time end_time repeat_num
            duration f tm)
   \<and> (\<not> validation_rules start_date end_date start_time end_time repeat_num duration \<longrightarrow>
        (\<exists>msg. addFunc now start_date end_date start_time end_time repeat_num duration f tm
            = Some (Some (CheckError msg), tm)))
   \<and> addDurationFunc now repeat_num duration f tm
      = (if repeat_num \<ge> 1 \<and> duration > 0
         then p_addFunc now Datetime_min Datetime_max 0 0 repeat_num duration f tm
         else Some (Some (CheckError (if repeat_num \<ge> 1
                                      then ''Invalid duration, must > TimeDelta(0)!''
                                      else ''Invalid repeat_num, must > 0'')), tm))
   \<and> addDelayFunc now duration f tm
      = (if duration > 0
         then p_addFunc now Datetime_min Datetime_max 0 0 1 duration f tm
         else Some (Some (CheckError ''Invalid delay, must > TimeDelta(0)!''), tm))
   \<and> addFuncAtPoint now time_point f tm
      = (case time_point of
           None \<Rightarrow> Some (Some (CheckError ''Invalid time_point''), tm)
         | Some tp \<Rightarrow>
             p_addFunc now (startOfDay (tp - 100000)) Datetime_max
               (tp - 100000 - startOfDay (tp - 100000)) 86399999999 1 100000 f tm)"
  by (auto simp add: addFunc_def addDurationFunc_def addDelayFunc_def addFuncAtPoint_def
      validation_rules_def TimeDelta_def Let_def split: option.splits)

theorem submission_validation_witness:
  "validation_rules (Some (TimeDelta 10 0 0 0 0 0)) (Some (TimeDelta 20 0 0 0 0 0))
     (TimeDelta 0 9 30 0 0 0) (TimeDelta 0 15 0 0 0 0) 1 (TimeDelta 0 1 0 0 0 0)
   \<and> addFunc (TimeDelta 10 2 0 0 0 0) (Some (TimeDelta 10 0 0 0 0 0))
       (Some (TimeDelta 20 0 0 0 0 0)) (TimeDelta 0 9 30 0 0 0) (TimeDelta 0 15 0 0 0 0) 1
       (TimeDelta 0 1 0 0 0 0) ''job'' idle_manager
       = Some (None, night_manager)
   \<and> \<not> validation_rules (Some (TimeDelta 10 0 0 0 0 0)) None
         (TimeDelta 0 9 30 0 0 0) (TimeDelta 0 15 0 0 0 0) 0 0
   \<and> addFunc (TimeDelta 10 2 0 0 0 0) (Some (TimeDelta 10 0 0 0 0 0)) None
       (TimeDelta 0 9 30 0 0 0) (TimeDelta 0 15 0 0 0 0) 0 0 ''job'' idle_manager
       = Some (Some (CheckError ''Invalid end_date!''), idle_manager)
   \<and> addDurationFunc 0 0 1 ''job'' idle_manager
       = Some (Some (CheckError ''Invalid repeat_num, must > 0''), idle_manager)"
  using submission_validation
          [where start_date = "Some (TimeDelta 10 0 0 0 0 0)"
             and end_date = "Some (TimeDelta 20 0 0 0 0 0)"
             and start_time = "TimeDelta 0 9 30 0 0 0" and end_time = "TimeDelta 0 15 0 0 0 0"
             and repeat_num = 1 and duration = "TimeDelta 0 1 0 0 0 0"
             and now = "TimeDelta 10 2 0 0 0 0" and f = "''job''" and tm = idle_manager
             and time_point = None]
        submission_validation
          [where start_date = "Some (TimeDelta 10 0 0 0 0 0)" and end_date = None
             and start_time = "TimeDelta 0 9 30 0 0 0" and end_time = "TimeDelta 0 15 0 0 0 0"
             and repeat_num = 0 and duration = 0
             and now = "TimeDelta 10 2 0 0 0 0" and f = "''job''" and tm = idle_manager
             and time_point = None]
  by (simp add: validation_rules_def addFunc_def addDurationFunc_def p_addFunc_def
      getNewTimerId_def probe_free_id_free idle_manager_def night_manager_def once_def
      timer_simps)

text \<open>
  C8 as stated fails: \<open>addDurationFunc\<close> returns normally and registers a timer whose
  start time and end time are zero, which the validation rules do not admit.
\<close>

theorem addDurationFunc_registers_invalid_times:
  "addDurationFunc 0 1 1 ''job'' idle_manager
     = Some (None,
         \<lparr>m_queue = [\<lparr>m_time_point = 1, m_timer_id = 0\<rparr>], m_stop = False,
          m_timers = [(0, \<lparr>m_start_date = Datetime_min, m_end_date = Datetime_max,
                            m_start_time = 0, m_end_time = 0, m_duration = 1,
                            m_repeat_num = 1, m_func = ''job''\<rparr>)],
          m_current_timer_id = 0\<rparr>)
   \<and> \<not> validation_rules (Some Datetime_min) (Some Datetime_max) 0 0 1 1"
  by (simp add: addDurationFunc_def p_addFunc_def getNewTimerId_def probe_free_id_free
      idle_manager_def validation_rules_def timer_simps Let_def)

text \<open>
  C9, as the code has it. When the scheduler holds \<open>INT_MAX\<close> timers or more, the
  allocation of an id yields -1 and changes nothing, \<open>p_addFunc\<close> throws the exception
  "Failed to get new id" and leaves the scheduler (map, queue and id counter) as it was, and
  so \<open>addFunc\<close> ends with an exception (this one or a check error) and the scheduler
  unchanged. Nothing is returned to the caller: \<open>addFunc\<close> has no return value.
\<close>

theorem addFunc_throws_when_full:
  assumes "INT_MAX \<le> int (length (m_timers tm))"
  shows "getNewTimerId tm = Some (- 1, tm)
       \<and> p_addFunc now sd ed start_time end_time repeat_num duration f tm
           = Some (Some (Exception ''Failed to get new id, maybe too timers!''), tm)
       \<and> (\<exists>e. addFunc now start_date end_date start_time end_time repeat_num duration f tm
                = Some (Some e, tm))"
  using assms
  by (simp add: getNewTimerId_full p_addFunc_full addFunc_def split: option.split)

theorem addFunc_throws_when_full_witness:
  "INT_MAX \<le> int (length (m_timers full_manager))
   \<and> getNewTimerId full_manager = Some (- 1, full_manager)
   \<and> p_addFunc 0 0 1 1 1 1 1 ''job'' full_manager
        = Some (Some (Exception ''Failed to get new id, maybe too timers!''), full_manager)"
  using addFunc_throws_when_full [of full_manager 0 0 1 1 1 1 1 "''job''"]
        length_full_manager
  by (simp add: INT_MAX_def)

text \<open>
  C9 as stated fails: on the full scheduler a call of \<open>addFunc\<close> whose arguments pass
  every check does not return; it ends with the exception that \<open>p_addFunc\<close> throws.
\<close>

theorem addFunc_full_raises_exception:
  "addFunc 0 (Some 0) (Some 1) 1 1 1 1 ''job'' full_manager
     = Some (Some (Exception ''Failed to get new id, maybe too timers!''), full_manager)"
  using length_full_manager
  by (simp add: addFunc_def TimeDelta_def p_addFunc_def getNewTimerId_def INT_MAX_def)

section \<open>Properties of the trading system\<close>

subsection \<open>What each operation leaves as it was\<close>

lemma pick_null: "pick TradeRecord_null r = r"
  by (simp add: pick_def isNull_def TradeRecord_null_def)

lemma ext_refl: "ext xs xs"
  by (simp add: ext_def)

lemma ext_snoc: "ext xs (xs @ [t])"
  by (simp add: ext_def)

lemma submitBuy_keeps:
  "m_trade_list (p_submitBuyRequest P k f s) = m_trade_list s"
  "m_params (p_submitBuyRequest P k f s) = m_params s"
  "m_sellRequest (p_submitBuyRequest P k f s) = m_sellRequest s"
  "m_sellShortRequest (p_submitBuyRequest P k f s) = m_sellShortRequest s"
  "m_buyShortRequest (p_submitBuyRequest P k f s) = m_buyShortRequest s"
  by (simp_all add: p_submitBuyRequest_def Let_def)

lemma submitSell_keeps:
  "m_trade_list (p_submitSellRequest P k f s) = m_trade_list s"
  "m_params (p_submitSellRequest P k f s) = m_params s"
  "m_buyRequest (p_submitSellRequest P k f s) = m_buyRequest s"
  "m_sellShortRequest (p_submitSellRequest P k f s) = m_sellShortRequest s"
  "m_buyShortRequest (p_submitSellRequest P k f s) = m_buyShortRequest s"
  by (simp_all add: p_submitSellRequest_def Let_def)

lemma submitSellShort_keeps:
  "m_trade_list (p_submitSellShortRequest P k f s) = m_trade_list s"
  "m_params (p_submitSellShortRequest P k f s) = m_params s"
  "m_buyRequest (p_submitSellShortRequest P k f s) = m_buyRequest s"
  "m_sellRequest (p_submitSellShortRequest P k f s) = m_sellRequest s"
  "m_buyShortRequest (p_submitSellShortRequest P k f s) = m_buyShortRequest s"
  by (simp_all add: p_submitSellShortRequest_def Let_def)

lemma buyDelay_keeps:
  "m_params (snd (p_buyDelay P k s)) = m_params s"
  "m_sellRequest (snd (p_buyDelay P k s)) = m_sellRequest s"
  "m_sellShortRequest (snd (p_buyDelay P k s)) = m_sellShortRequest s"
  "m_buyShortRequest (snd (p_buyDelay P k s)) = m_buyShortRequest s"
  "ext (m_trade_list s) (m_trade_list (snd (p_buyDelay P k s)))"
  by (simp_all add: p_buyDelay_def Let_def split_def submitBuy_keeps ext_refl ext_snoc)

lemma sellDelay_keeps:
  "m_params (snd (p_sellDelay P k s)) = m_params s"
  "m_buyRequest (snd (p_sellDelay P k s)) = m_buyRequest s"
  "m_sellShortRequest (snd (p_sellDelay P k s)) = m_sellShortRequest s"
  "m_buyShortRequest (snd (p_sellDelay P k s)) = m_buyShortRequest s"
  "ext (m_trade_list s) (m_trade_list (snd (p_sellDelay P k s)))"
  by (simp_all add: p_sellDelay_def Let_def split_def submitSell_keeps ext_refl ext_snoc)

lemma sellShortDelay_keeps:
  "m_params (snd (p_sellShortDelay P k s)) = m_params s"
  "m_buyRequest (snd (p_sellShortDelay P k s)) = m_buyRequest s"
  "m_sellRequest (snd (p_sellShortDelay P k s)) = m_sellRequest s"
  "m_buyShortRequest (snd (p_sellShortDelay P k s)) = m_buyShortRequest s"
  "ext (m_trade_list s) (m_trade_list (snd (p_sellShortDelay P k s)))"
  by (simp_all add: p_sellShortDelay_def Let_def split_def submitSellShort_keeps ext_refl
      ext_snoc)

lemma buyShortDelay_keeps:
  "m_params (snd (p_buyShortDelay P k s)) = m_params s"
  "m_buyRequest (snd (p_buyShortDelay P k s)) = m_buyRequest s"
  "m_sellRequest (snd (p_buyShortDelay P k s)) = m_sellRequest s"
  "m_sellShortRequest (snd (p_buyShortDelay P k s)) = m_sellShortRequest s"
  "ext (m_trade_list s) (m_trade_list (snd (p_buyShortDelay P k s)))"
  by (simp_all add: p_buyShortDelay_def Let_def split_def ext_refl ext_snoc)

lemma buyShortDelay_null: "fst (p_buyShortDelay P k s) = TradeRecord_null"
  by (simp add: p_buyShortDelay_def Let_def split_def)

lemma processRequest_keeps:
  "m_params (snd (p_processRequest P k s)) = m_params s"
  "ext (m_trade_list s) (m_trade_list (snd (p_processRequest P k s)))"
  by (simp_all add: p_processRequest_def buyDelay_keeps sellDelay_keeps sellShortDelay_keeps
      buyShortDelay_keeps ext_refl)

lemma processRequest_idle:
  "\<not> haveDelayRequest s \<Longrightarrow> p_processRequest P k s = (TradeRecord_null, s)"
  by (simp add: p_processRequest_def haveDelayRequest_def)

lemma buy_delay:
  "delay (m_params s) \<Longrightarrow> p_buy P k f s = (TradeRecord_null, p_submitBuyRequest P k f s)"
  by (simp add: p_buy_def)

lemma sell_delay:
  "delay (m_params s) \<Longrightarrow> p_sell P k f s = (TradeRecord_null, p_submitSellRequest P k f s)"
  by (simp add: p_sell_def)

lemma buy_now: "\<not> delay (m_params s) \<Longrightarrow> p_buy P k f s = p_buyNow P k f s"
  by (simp add: p_buy_def)

lemma sell_now: "\<not> delay (m_params s) \<Longrightarrow> p_sell P k f s = p_sellNow P k f s"
  by (simp add: p_sell_def)

lemma buyNow_keeps:
  "m_params (snd (p_buyNow P k f s)) = m_params s"
  "m_buyRequest (snd (p_buyNow P k f s)) = m_buyRequest s"
  "m_sellRequest (snd (p_buyNow P k f s)) = m_sellRequest s"
  "m_sellShortRequest (snd (p_buyNow P k f s)) = m_sellShortRequest s"
  "m_buyShortRequest (snd (p_buyNow P k f s)) = m_buyShortRequest s"
  "m_trade_list s = l \<Longrightarrow> ext l (m_trade_list (snd (p_buyNow P k f s)))"
  by (auto simp add: p_buyNow_def Let_def split_def ext_refl ext_snoc)

lemma sellNow_keeps:
  "m_params (snd (p_sellNow P k f s)) = m_params s"
  "m_buyRequest (snd (p_sellNow P k f s)) = m_buyRequest s"
  "m_sellRequest (snd (p_sellNow P k f s)) = m_sellRequest s"
  "m_sellShortRequest (snd (p_sellNow P k f s)) = m_sellShortRequest s"
  "m_buyShortRequest (snd (p_sellNow P k f s)) = m_buyShortRequest s"
  "m_trade_list s = l \<Longrightarrow> ext l (m_trade_list (snd (p_sellNow P k f s)))"
  by (auto simp add: p_sellNow_def Let_def split_def ext_refl ext_snoc)

subsection \<open>One bar keeps the invariant and appends at most one trade\<close>

lemma p_runMoment_delay:
  assumes "delay (m_params s)"
  shows "m_params (snd (p_runMoment P k s)) = m_params s
       \<and> ext (m_trade_list s) (m_trade_list (snd (p_runMoment P k s)))
       \<and> fst (p_runMoment P k s)
           = (if (highPrice k = lowPrice k \<or> closePrice k > highPrice k
                  \<or> closePrice k < lowPrice k)
                 \<and> \<not> can_trade_when_high_eq_low (m_params s)
              then TradeRecord_null else fst (p_processRequest P k s))"
  using assms processRequest_keeps(2) [of s P k]
  by (simp add: p_runMoment_def Let_def split_def processRequest_keeps(1) buy_delay sell_delay
      submitBuy_keeps submitSell_keeps pick_null ext_refl)

lemma p_runMoment_now:
  assumes "\<not> delay (m_params s)" and "\<not> haveDelayRequest s"
  shows "m_params (snd (p_runMoment P k s)) = m_params s
       \<and> ext (m_trade_list s) (m_trade_list (snd (p_runMoment P k s)))
       \<and> \<not> haveDelayRequest (snd (p_runMoment P k s))"
  using assms
  by (simp add: p_runMoment_def Let_def split_def processRequest_idle buy_now sell_now
      buyNow_keeps sellNow_keeps haveDelayRequest_def ext_refl)

lemma p_runMoment_effect:
  assumes "delay_consistent s"
  shows "m_params (snd (p_runMoment P k s)) = m_params s
       \<and> delay_consistent (snd (p_runMoment P k s))
       \<and> ext (m_trade_list s) (m_trade_list (snd (p_runMoment P k s)))"
proof (cases "delay (m_params s)")
  case True
  then show ?thesis
    using p_runMoment_delay [of s P k] by (simp add: delay_consistent_def)
next
  case False
  with assms have "\<not> haveDelayRequest s"
    by (simp add: delay_consistent_def)
  with False show ?thesis
    using p_runMoment_now [of s P k] by (simp add: delay_consistent_def)
qed

lemma runMoment_effect:
  assumes "delay_consistent s"
  shows "delay_consistent (snd (runMoment P k s))
       \<and> ext (m_trade_list s) (m_trade_list (snd (runMoment P k s)))"
proof -
  let ?s = "s\<lparr>m_buy_days := m_buy_days s + 1, m_sell_short_days := m_sell_short_days s + 1\<rparr>"
  from assms have "delay_consistent ?s"
    by (simp add: delay_consistent_def haveDelayRequest_def)
  from p_runMoment_effect [OF this, of P k] show ?thesis
    by (simp add: runMoment_def)
qed

lemma snd_runMoments_Cons:
  "snd (runMoments P (k # ks) s) = snd (runMoments P ks (snd (runMoment P k s)))"
  by (simp add: split_def Let_def)

lemma runMoments_consistent:
  "delay_consistent s \<Longrightarrow> delay_consistent (snd (runMoments P ks s))"
proof (induction ks arbitrary: s)
  case Nil
  then show ?case by simp
next
  case (Cons k ks)
  from Cons.prems have "delay_consistent (snd (runMoment P k s))"
    by (simp add: runMoment_effect)
  from Cons.IH [OF this] show ?case
    by (simp only: snd_runMoments_Cons)
qed

lemmas demo_simps =
  demo_def demo_trade_def bar_def fresh_def request_def initParam_def OrderRequest_clear_def
  TradeRecord_null_def KRecord_at_def isNull_def pick_def Let_def p_buyNotifyAll_def
  p_sellNotifyAll_def

lemmas run_simps =
  runMoment_def p_runMoment_def p_processRequest_def p_buy_def p_sell_def p_buyNow_def
  p_sellNow_def p_buyDelay_def p_sellDelay_def p_submitBuyRequest_def p_submitSellRequest_def

subsection \<open>The claims\<close>

text \<open>
  What the gate of \<open>p_runMoment\<close> does. On a bar with high equal to low, or with the
  close outside the range from low to high, while \<open>can_trade_when_high_eq_low\<close> is off,
  \<open>runMoment\<close> returns the null record before it looks at any request: nothing but
  the two day counters changes.
\<close>

lemma runMoment_degenerate_bar:
  assumes "highPrice k = lowPrice k \<or> closePrice k > highPrice k \<or> closePrice k < lowPrice k"
    and "\<not> can_trade_when_high_eq_low (m_params s)"
  shows "runMoment P k s
           = (TradeRecord_null,
              s\<lparr>m_buy_days := m_buy_days s + 1, m_sell_short_days := m_sell_short_days s + 1\<rparr>)
       \<and> m_trade_list (snd (runMoment P k s)) = m_trade_list s
       \<and> m_buyRequest (snd (runMoment P k s)) = m_buyRequest s
       \<and> m_sellRequest (snd (runMoment P k s)) = m_sellRequest s
       \<and> m_sellShortRequest (snd (runMoment P k s)) = m_sellShortRequest s
       \<and> m_buyShortRequest (snd (runMoment P k s)) = m_buyShortRequest s"
  using assms by (simp add: runMoment_def p_runMoment_def)

text \<open>
  C1 fails on the code. A buy request is pending with retry count 1, \<open>max_delay_count\<close>
  is 3 and \<open>can_trade_when_high_eq_low\<close> is off. Five bars with high equal to low
  follow: each returns the null record, as the claim says, but the request is not
  submitted again; after the five bars it is in its buffer as it was, with count 1, and
  the regular bar after them still executes it. The delayed execution itself
  (\<open>p_buyDelay\<close>, and \<open>p_sellDelay\<close> for a sell request), were it reached on such
  a bar, would submit the request again and make the count 2: the gate of
  \<open>p_runMoment\<close> returns before \<open>p_processRequest\<close> and so keeps that code from
  running.
\<close>

theorem degenerate_bars_never_bump_count:
  "max_delay_count (m_params
      ((fresh initParam (0, 0))\<lparr>m_buyRequest := request BUSINESS_BUY 1 1\<rparr>)) = 3
   \<and> \<not> can_trade_when_high_eq_low (m_params
        ((fresh initParam (0, 0))\<lparr>m_buyRequest := request BUSINESS_BUY 1 1\<rparr>))
   \<and> fst (runMoments demo
          [bar 2 10 10 10 10, bar 3 10 10 10 10, bar 4 10 10 10 10, bar 5 10 10 10 10,
           bar 6 10 10 10 10]
          ((fresh initParam (0, 0))\<lparr>m_buyRequest := request BUSINESS_BUY 1 1\<rparr>))
       = [TradeRecord_null, TradeRecord_null, TradeRecord_null, TradeRecord_null,
          TradeRecord_null]
   \<and> m_buyRequest (snd (runMoments demo
          [bar 2 10 10 10 10, bar 3 10 10 10 10, bar 4 10 10 10 10, bar 5 10 10 10 10,
           bar 6 10 10 10 10]
          ((fresh initParam (0, 0))\<lparr>m_buyRequest := request BUSINESS_BUY 1 1\<rparr>)))
       = request BUSINESS_BUY 1 1
   \<and> m_trade_list (snd (runMoments demo
          [bar 2 10 10 10 10, bar 3 10 10 10 10, bar 4 10 10 10 10, bar 5 10 10 10 10,
           bar 6 10 10 10 10, bar 7 10 11 9 10]
          ((fresh initParam (0, 0))\<lparr>m_buyRequest := request BUSINESS_BUY 1 1\<rparr>)))
       = [demo_trade BUSINESS_BUY (Some 7) 10 100 9 15 10 PART_SIGNAL]
   \<and> req_count (m_buyRequest (snd (p_buyDelay demo (bar 2 10 10 10 10)
        ((fresh initParam (0, 0))\<lparr>m_buyRequest := request BUSINESS_BUY 1 1\<rparr>)))) = 2
   \<and> req_count (m_sellRequest (snd (p_sellDelay demo (bar 2 10 10 10 10)
        ((fresh initParam (100, 0))\<lparr>m_sellRequest := request BUSINESS_SELL 1 1\<rparr>)))) = 2"
  by (simp add: run_simps demo_simps)

text \<open>
  C2, as the code has it. The processing of delayed orders runs the delayed execution of the first pending
  request only, in the order long-buy, long-sell, short-sell, short-buy: the buffers of
  the other directions are left as they were, and at most one trade is appended. And in
  every state that a sequence of bars leads to, the next bar appends at most one trade to
  the trade list. The sequence starts in a state where a request is pending only if the
  parameter \<open>delay\<close> is on, as after \<open>reset\<close>, and runs under one configuration:
  no parameter is set between two bars.
\<close>

theorem one_trade_per_bar:
  assumes "delay_consistent s"
  shows "ext (m_trade_list (snd (runMoments P ks s)))
           (m_trade_list (snd (runMoment P k (snd (runMoments P ks s)))))
       \<and> ext (m_trade_list t) (m_trade_list (snd (p_processRequest P k t)))
       \<and> (req_valid (m_buyRequest t) \<longrightarrow>
            p_processRequest P k t = p_buyDelay P k t
            \<and> m_sellRequest (snd (p_processRequest P k t)) = m_sellRequest t
            \<and> m_sellShortRequest (snd (p_processRequest P k t)) = m_sellShortRequest t
            \<and> m_buyShortRequest (snd (p_processRequest P k t)) = m_buyShortRequest t)
       \<and> (\<not> req_valid (m_buyRequest t) \<and> req_valid (m_sellRequest t) \<longrightarrow>
            p_processRequest P k t = p_sellDelay P k t
            \<and> m_buyRequest (snd (p_processRequest P k t)) = m_buyRequest t
            \<and> m_sellShortRequest (snd (p_processRequest P k t)) = m_sellShortRequest t
            \<and> m_buyShortRequest (snd (p_processRequest P k t)) = m_buyShortRequest t)
       \<and> (\<not> req_valid (m_buyRequest t) \<and> \<not> req_valid (m_sellRequest t)
            \<and> req_valid (m_sellShortRequest t) \<longrightarrow>
            p_processRequest P k t = p_sellShortDelay P k t
            \<and> m_buyRequest (snd (p_processRequest P k t)) = m_buyRequest t
            \<and> m_sellRequest (snd (p_processRequest P k t)) = m_sellRequest t
            \<and> m_buyShortRequest (snd (p_processRequest P k t)) = m_buyShortRequest t)
       \<and> (\<not> req_valid (m_buyRequest t) \<and> \<not> req_valid (m_sellRequest t)
            \<and> \<not> req_valid (m_sellShortRequest t) \<and> req_valid (m_buyShortRequest t) \<longrightarrow>
            p_processRequest P k t = p_buyShortDelay P k t
            \<and> m_buyRequest (snd (p_processRequest P k t)) = m_buyRequest t
            \<and> m_sellRequest (snd (p_processRequest P k t)) = m_sellRequest t
            \<and> m_sellShortRequest (snd (p_processRequest P k t)) = m_sellShortRequest t)"
proof -
  from assms have "delay_consistent (snd (runMoments P ks s))"
    by (rule runMoments_consistent)
  then have run: "ext (m_trade_list (snd (runMoments P ks s)))
                   (m_trade_list (snd (runMoment P k (snd (runMoments P ks s)))))"
    by (simp add: runMoment_effect)
  have dispatch: "ext (m_trade_list t) (m_trade_list (snd (p_processRequest P k t)))"
    by (rule processRequest_keeps(2))
  show ?thesis
    using run dispatch
    by (simp add: p_processRequest_def buyDelay_keeps sellDelay_keeps sellShortDelay_keeps
        buyShortDelay_keeps)
qed

theorem one_trade_per_bar_witness:
  "delay_consistent (fresh initParam (0, 0))
   \<and> m_trade_list (snd (runMoments demo [bar 1 10 11 9 10] (fresh initParam (0, 0)))) = []
   \<and> m_trade_list (snd (runMoment demo (bar 2 10 11 9 10)
        (snd (runMoments demo [bar 1 10 11 9 10] (fresh initParam (0, 0))))))
       = [demo_trade BUSINESS_BUY (Some 2) 10 100 9 15 10 PART_SIGNAL]
   \<and> req_valid (m_buyRequest
        ((fresh initParam (0, 0))\<lparr>m_buyRequest := request BUSINESS_BUY 1 1,
                                  m_sellRequest := request BUSINESS_SELL 1 1\<rparr>))
   \<and> m_sellRequest (snd (p_processRequest demo (bar 2 10 11 9 10)
        ((fresh initParam (0, 0))\<lparr>m_buyRequest := request BUSINESS_BUY 1 1,
                                  m_sellRequest := request BUSINESS_SELL 1 1\<rparr>)))
       = request BUSINESS_SELL 1 1"
  using one_trade_per_bar
          [of "fresh initParam (0, 0)" demo "[bar 1 10 11 9 10]" "bar 2 10 11 9 10"
              "(fresh initParam (0, 0))\<lparr>m_buyRequest := request BUSINESS_BUY 1 1,
                                        m_sellRequest := request BUSINESS_SELL 1 1\<rparr>"]
  by (simp add: delay_consistent_def haveDelayRequest_def run_simps demo_simps)

text \<open>
  C2 as stated fails. A run under the default parameters makes a buy request on the bar
  of datetime 1. Then \<open>delay\<close> is set to false, and the bar of datetime 2 makes two
  trades: the delayed buy, and at once the sell on the signal of that bar.
\<close>

theorem delay_switched_off_while_pending:
  "m_trade_list (snd (runMoment demo (bar 1 10 11 9 10) (fresh initParam (0, 0)))) = []
   \<and> m_buyRequest (snd (runMoment demo (bar 1 10 11 9 10) (fresh initParam (0, 0))))
       = request BUSINESS_BUY 1 1
   \<and> m_trade_list (snd (runMoment demo (bar 2 10 11 9 10)
        ((snd (runMoment demo (bar 1 10 11 9 10) (fresh initParam (0, 0))))
           \<lparr>m_params := initParam\<lparr>delay := False\<rparr>\<rparr>)))
       = [demo_trade BUSINESS_BUY (Some 2) 10 100 9 15 10 PART_SIGNAL,
          demo_trade BUSINESS_SELL (Some 2) 10 100 9 15 10 PART_SIGNAL]"
  by (simp add: run_simps demo_simps)

text \<open>
  C3 fails on the code for the short-buy direction. A short-buy request is pending with
  retry count 4, above \<open>max_delay_count\<close> = 3, and a long-buy request is pending too.
  Submitting a short-buy decision leaves the short-buy request as it was, still valid
  with count 4, and clears the long-buy request instead.
\<close>

theorem submitBuyShortRequest_clears_long_buy_request:
  "max_delay_count (m_params
      ((fresh initParam (0, 100))\<lparr>m_buyRequest := request BUSINESS_BUY 4 1,
                                  m_buyShortRequest := request BUSINESS_BUY 1 4\<rparr>)) = 3
   \<and> m_buyShortRequest (p_submitBuyShortRequest demo (bar 5 10 11 9 10) PART_SIGNAL
        ((fresh initParam (0, 100))\<lparr>m_buyRequest := request BUSINESS_BUY 4 1,
                                    m_buyShortRequest := request BUSINESS_BUY 1 4\<rparr>))
       = request BUSINESS_BUY 1 4
   \<and> m_buyRequest (p_submitBuyShortRequest demo (bar 5 10 11 9 10) PART_SIGNAL
        ((fresh initParam (0, 100))\<lparr>m_buyRequest := request BUSINESS_BUY 4 1,
                                    m_buyShortRequest := request BUSINESS_BUY 1 4\<rparr>))
       = OrderRequest_clear"
  by (simp add: p_submitBuyShortRequest_def fresh_def request_def initParam_def Let_def)

text \<open>
  C4, as the code has it. After a delayed long entry that succeeds (\<open>p_buyDelay\<close>
  returns a record of business BUY), \<open>m_lastTakeProfit\<close> is the real price of that
  trade: the price that the slippage gives for the open of the bar. After an immediate
  long entry that succeeds (\<open>p_buyNow\<close>), \<open>m_lastTakeProfit\<close> is the take-profit price
  at the datetime of the trade record, asked after the trade manager has bought; the real
  price plays no part in it.
\<close>

theorem entry_seeds_lastTakeProfit:
  "(tr_business (fst (p_buyDelay P k s)) = BUSINESS_BUY \<longrightarrow>
      m_lastTakeProfit (snd (p_buyDelay P k s))
        = p_getRealBuyPrice P (m_plugins s) (datetime k) (openPrice k))
   \<and> (tr_business (fst (p_buyNow P k f s)) = BUSINESS_BUY \<longrightarrow>
        m_lastTakeProfit (snd (p_buyNow P k f s))
          = (let w = m_plugins s;
                 planPrice = closePrice k;
                 stoploss = p_getStoplossPrice P w (datetime k) planPrice;
                 number = p_getBuyNumber P w (datetime k) planPrice (planPrice - stoploss) f;
                 min_num = minTradeNumber (m_stock s);
                 number = (if min_num > 1 then number / min_num * min_num else number);
                 realPrice = p_getRealBuyPrice P w (datetime k) planPrice;
                 goalPrice = p_getGoalPrice P w (datetime k) planPrice;
                 w1 = snd (tm_buy P w (datetime k) (m_stock s) realPrice number stoploss
                             goalPrice planPrice f)
             in p_getTakeProfitPrice P w1 (tr_datetime (fst (p_buyNow P k f s)))))"
  by (auto simp add: p_buyDelay_def p_buyNow_def Let_def split_def TradeRecord_null_def)

theorem entry_seeds_lastTakeProfit_witness:
  "tr_business (fst (p_buyDelay demo (bar 2 10 11 9 10)
      ((fresh initParam (0, 0))\<lparr>m_buyRequest := request BUSINESS_BUY 1 1\<rparr>))) = BUSINESS_BUY
   \<and> m_lastTakeProfit (snd (p_buyDelay demo (bar 2 10 11 9 10)
        ((fresh initParam (0, 0))\<lparr>m_buyRequest := request BUSINESS_BUY 1 1\<rparr>))) = 10
   \<and> tr_business (fst (p_buyNow demo (bar 1 10 11 9 10) PART_SIGNAL (fresh initParam (0, 0))))
       = BUSINESS_BUY
   \<and> m_lastTakeProfit (snd (p_buyNow demo (bar 1 10 11 9 10) PART_SIGNAL
        (fresh initParam (0, 0)))) = 9"
  using entry_seeds_lastTakeProfit
          [where P = demo and k = "bar 2 10 11 9 10"
             and s = "(fresh initParam (0, 0))\<lparr>m_buyRequest := request BUSINESS_BUY 1 1\<rparr>"]
        entry_seeds_lastTakeProfit
          [where P = demo and k = "bar 1 10 11 9 10" and f = PART_SIGNAL
             and s = "fresh initParam (0, 0)"]
  by (simp add: run_simps demo_simps)

text \<open>
  C4 as stated fails: the immediate entry on the bar that closes at 10 trades at the real
  price 10 and leaves \<open>m_lastTakeProfit\<close> at 9, the take-profit price of that bar.
\<close>

theorem buyNow_seeds_take_profit_price:
  "tr_business (fst (p_buyNow demo (bar 1 10 11 9 10) PART_SIGNAL (fresh initParam (0, 0))))
     = BUSINESS_BUY
   \<and> tr_realPrice (fst (p_buyNow demo (bar 1 10 11 9 10) PART_SIGNAL
        (fresh initParam (0, 0)))) = 10
   \<and> m_lastTakeProfit (snd (p_buyNow demo (bar 1 10 11 9 10) PART_SIGNAL
        (fresh initParam (0, 0)))) = 9"
  by (simp add: run_simps demo_simps)

text \<open>
  C5 fails on the code. With \<open>ignore_sell_sg\<close> on, 100 held long, and a bar on which the
  signal says sell and does not say buy, the system still sells on the signal: at once
  when \<open>delay\<close> is off, and through a sell request from the signal when it is on.
\<close>

theorem sell_signal_not_ignored:
  "ignore_sell_sg (m_params (fresh (initParam\<lparr>ignore_sell_sg := True, delay := False\<rparr>)
      (100, 0)))
   \<and> \<not> sg_shouldBuy demo (100, 0) (datetime (bar 2 10 11 9 10))
   \<and> sg_shouldSell demo (100, 0) (datetime (bar 2 10 11 9 10))
   \<and> fst (runMoment demo (bar 2 10 11 9 10)
        (fresh (initParam\<lparr>ignore_sell_sg := True, delay := False\<rparr>) (100, 0)))
       = demo_trade BUSINESS_SELL (Some 2) 10 100 9 15 10 PART_SIGNAL
   \<and> m_sellRequest (snd (runMoment demo (bar 2 10 11 9 10)
        (fresh (initParam\<lparr>ignore_sell_sg := True\<rparr>) (100, 0))))
       = (request BUSINESS_SELL 2 1)\<lparr>req_number := 100\<rparr>"
  by (simp add: run_simps demo_simps)

lemma buyShortDelay_appended:
  "m_trade_list (snd (p_buyShortDelay P k s)) \<noteq> m_trade_list s \<longrightarrow>
     (\<exists>record. tr_business record = BUSINESS_BUY_SHORT
        \<and> m_trade_list (snd (p_buyShortDelay P k s)) = m_trade_list s @ [record])
     \<and> m_buyShortRequest (snd (p_buyShortDelay P k s)) = OrderRequest_clear"
  by (auto simp add: p_buyShortDelay_def Let_def split_def split: if_splits)

lemma buyShortDelay_executes:
  "(let w = m_plugins s;
        planPrice = openPrice k;
        cur = delay_use_current_price (m_params s);
        stoploss = (if cur then p_getShortStoplossPrice P w (req_datetime (m_buyRequest s))
                                  planPrice
                    else req_stoploss (m_buyShortRequest s));
        number = (if cur then p_getBuyShortNumber P w (datetime k) planPrice
                                (stoploss - planPrice) (req_from (m_buyRequest s))
                  else req_number (m_buyShortRequest s));
        goalPrice = (if cur then p_getShortGoalPrice P w (datetime k) planPrice
                     else req_goal (m_buyShortRequest s));
        pos = tm_getShortPosition P w (m_stock s);
        record = fst (tm_buyShort P w (datetime k) (m_stock s)
                        (p_getRealBuyPrice P w (datetime k) planPrice)
                        (if number > pos_number pos then pos_number pos else number)
                        stoploss goalPrice planPrice PART_SIGNAL)
    in highPrice k \<noteq> lowPrice k \<and> number \<noteq> 0 \<and> pos_number pos \<noteq> 0
       \<and> tr_business record = BUSINESS_BUY_SHORT \<longrightarrow>
         m_trade_list (snd (p_buyShortDelay P k s)) = m_trade_list s @ [record]
         \<and> m_buyShortRequest (snd (p_buyShortDelay P k s)) = OrderRequest_clear
         \<and> fst (p_buyShortDelay P k s) = TradeRecord_null)"
  by (simp add: p_buyShortDelay_def Let_def split_def)

lemma buyShortDelay_dispatched:
  "\<not> req_valid (m_buyRequest s) \<and> \<not> req_valid (m_sellRequest s)
     \<and> \<not> req_valid (m_sellShortRequest s) \<and> req_valid (m_buyShortRequest s) \<longrightarrow>
     fst (p_processRequest P k s) = TradeRecord_null
     \<and> (delay (m_params s) \<longrightarrow> fst (runMoment P k s) = TradeRecord_null)"
  using p_runMoment_delay
          [of "s\<lparr>m_buy_days := m_buy_days s + 1,
                 m_sell_short_days := m_sell_short_days s + 1\<rparr>" P k]
  by (simp add: runMoment_def p_processRequest_def buyShortDelay_null)

lemma buyDelay_returns:
  "fst (p_buyDelay P k s) = TradeRecord_null
     \<and> m_trade_list (snd (p_buyDelay P k s)) = m_trade_list s
   \<or> tr_business (fst (p_buyDelay P k s)) = BUSINESS_BUY
     \<and> m_trade_list (snd (p_buyDelay P k s)) = m_trade_list s @ [fst (p_buyDelay P k s)]
     \<and> m_buyRequest (snd (p_buyDelay P k s)) = OrderRequest_clear"
  by (auto simp add: p_buyDelay_def Let_def split_def submitBuy_keeps)

lemma buyDelay_executes:
  "(let w = m_plugins s;
        planPrice = openPrice k;
        cur = delay_use_current_price (m_params s);
        stoploss = (if cur then p_getStoplossPrice P w (datetime k) planPrice
                    else req_stoploss (m_buyRequest s));
        number = (if cur then p_getBuyNumber P w (datetime k) planPrice (planPrice - stoploss)
                                (req_from (m_buyRequest s))
                  else req_number (m_buyRequest s));
        goalPrice = (if cur then p_getGoalPrice P w (datetime k) planPrice
                     else req_goal (m_buyRequest s));
        min_num = minTradeNumber (m_stock s);
        record = fst (tm_buy P w (datetime k) (m_stock s)
                        (p_getRealBuyPrice P w (datetime k) planPrice)
                        (if min_num > 1 then number / min_num * min_num else number)
                        stoploss goalPrice planPrice (req_from (m_buyRequest s)))
    in \<not> (highPrice k = lowPrice k \<and> \<not> can_trade_when_high_eq_low (m_params s))
       \<and> \<not> planPrice \<le> stoploss \<and> number \<noteq> 0 \<and> tr_business record = BUSINESS_BUY \<longrightarrow>
         fst (p_buyDelay P k s) = record
         \<and> m_trade_list (snd (p_buyDelay P k s)) = m_trade_list s @ [record]
         \<and> m_buyRequest (snd (p_buyDelay P k s)) = OrderRequest_clear)"
  by (simp add: p_buyDelay_def Let_def split_def)

lemma sellDelay_returns:
  "fst (p_sellDelay P k s) = TradeRecord_null
     \<and> m_trade_list (snd (p_sellDelay P k s)) = m_trade_list s
   \<or> tr_business (fst (p_sellDelay P k s)) = BUSINESS_SELL
     \<and> m_trade_list (snd (p_sellDelay P k s)) = m_trade_list s @ [fst (p_sellDelay P k s)]
     \<and> m_sellRequest (snd (p_sellDelay P k s)) = OrderRequest_clear"
  by (auto simp add: p_sellDelay_def Let_def split_def submitSell_keeps)

lemma sellDelay_executes:
  "(let w = m_plugins s;
        planPrice = openPrice k;
        cur = delay_use_current_price (m_params s);
        stoploss = (if cur then p_getStoplossPrice P w (datetime k) planPrice
                    else req_stoploss (m_sellRequest s));
        number = (if cur then
                    (if planPrice < stoploss
                     then tm_getHoldNumber P w (datetime k) (m_stock s)
                     else p_getSellNumber P w (datetime k) planPrice (planPrice - stoploss)
                            (req_from (m_sellRequest s)))
                  else req_number (m_sellRequest s));
        goalPrice = (if cur then p_getGoalPrice P w (datetime k) planPrice
                     else req_goal (m_sellRequest s));
        record = fst (tm_sell P w (datetime k) (m_stock s)
                        (p_getRealSellPrice P w (datetime k) planPrice) number stoploss
                        goalPrice planPrice (req_from (m_sellRequest s)))
    in \<not> (highPrice k = lowPrice k \<and> \<not> can_trade_when_high_eq_low (m_params s))
       \<and> number \<noteq> 0 \<and> tr_business record = BUSINESS_SELL \<longrightarrow>
         fst (p_sellDelay P k s) = record
         \<and> m_trade_list (snd (p_sellDelay P k s)) = m_trade_list s @ [record]
         \<and> m_sellRequest (snd (p_sellDelay P k s)) = OrderRequest_clear)"
  by (simp add: p_sellDelay_def Let_def split_def)

lemma sellShortDelay_returns:
  "fst (p_sellShortDelay P k s) = TradeRecord_null
     \<and> m_trade_list (snd (p_sellShortDelay P k s)) = m_trade_list s
   \<or> tr_business (fst (p_sellShortDelay P k s)) = BUSINESS_SELL_SHORT
     \<and> m_trade_list (snd (p_sellShortDelay P k s))
         = m_trade_list s @ [fst (p_sellShortDelay P k s)]
     \<and> m_sellShortRequest (snd (p_sellShortDelay P k s)) = OrderRequest_clear"
  by (auto simp add: p_sellShortDelay_def Let_def split_def submitSellShort_keeps)

lemma sellShortDelay_executes:
  "(let w = m_plugins s;
        planPrice = openPrice k;
        cur = delay_use_current_price (m_params s);
        stoploss = (if cur then p_getShortStoplossPrice P w (datetime k) planPrice
                    else req_stoploss (m_sellShortRequest s));
        number = (if cur then p_getSellShortNumber P w (datetime k) planPrice
                                (stoploss - planPrice) (req_from (m_sellShortRequest s))
                  else req_number (m_sellShortRequest s));
        goalPrice = (if cur then p_getShortGoalPrice P w (datetime k) planPrice
                     else req_goal (m_sellShortRequest s));
        record = fst (tm_sell P w (datetime k) (m_stock s)
                        (p_getRealSellPrice P w (datetime k) planPrice) number stoploss
                        goalPrice planPrice (req_from (m_sellShortRequest s)))
    in highPrice k \<noteq> lowPrice k \<and> number \<noteq> 0
       \<and> tr_business record = BUSINESS_SELL_SHORT \<longrightarrow>
         fst (p_sellShortDelay P k s) = record
         \<and> m_trade_list (snd (p_sellShortDelay P k s)) = m_trade_list s @ [record]
         \<and> m_sellShortRequest (snd (p_sellShortDelay P k s)) = OrderRequest_clear)"
  by (simp add: p_sellShortDelay_def Let_def split_def)

text \<open>
  C10, as the code has it. \<open>p_buyShortDelay\<close> returns the null record on every path.
  When the bar is not flat, the number to buy and the short position are not zero and the
  trade manager answers with a short-buy record, the delayed execution of the short-buy
  request appends that record to the trade list and clears the buffer, and still returns
  the null record; the trade list changes in no other way. When the short-buy request is
  the one that the bar dispatches, \<open>p_processRequest\<close> returns the null record, and
  with the parameter \<open>delay\<close> on so does \<open>runMoment\<close>. The delayed executions of
  the other three directions, when their order goes through, append the record of the
  trade manager, clear their buffer and return that record; otherwise they return the
  null record and append nothing.
\<close>

theorem buyShortDelay_returns_null_record:
  "fst (p_buyShortDelay P k s) = TradeRecord_null
   \<and> isNull (fst (p_buyShortDelay P k s))
   \<and> (m_trade_list (snd (p_buyShortDelay P k s)) \<noteq> m_trade_list s \<longrightarrow>
        (\<exists>record. tr_business record = BUSINESS_BUY_SHORT
           \<and> m_trade_list (snd (p_buyShortDelay P k s)) = m_trade_list s @ [record])
        \<and> m_buyShortRequest (snd (p_buyShortDelay P k s)) = OrderRequest_clear)
   \<and> (let w = m_plugins s;
           planPrice = openPrice k;
           cur = delay_use_current_price (m_params s);
           stoploss = (if cur then p_getShortStoplossPrice P w (req_datetime (m_buyRequest s))
                                     planPrice
                       else req_stoploss (m_buyShortRequest s));
           number = (if cur then p_getBuyShortNumber P w (datetime k) planPrice
                                   (stoploss - planPrice) (req_from (m_buyRequest s))
                     else req_number (m_buyShortRequest s));
           goalPrice = (if cur then p_getShortGoalPrice P w (datetime k) planPrice
                        else req_goal (m_buyShortRequest s));
           pos = tm_getShortPosition P w (m_stock s);
           record = fst (tm_buyShort P w (datetime k) (m_stock s)
                           (p_getRealBuyPrice P w (datetime k) planPrice)
                           (if number > pos_number pos then pos_number pos else number)
                           stoploss goalPrice planPrice PART_SIGNAL)
       in highPrice k \<noteq> lowPrice k \<and> number \<noteq> 0 \<and> pos_number pos \<noteq> 0
          \<and> tr_business record = BUSINESS_BUY_SHORT \<longrightarrow>
            m_trade_list (snd (p_buyShortDelay P k s)) = m_trade_list s @ [record]
            \<and> m_buyShortRequest (snd (p_buyShortDelay P k s)) = OrderRequest_clear
            \<and> fst (p_buyShortDelay P k s) = TradeRecord_null)
   \<and> (\<not> req_valid (m_buyRequest s) \<and> \<not> req_valid (m_sellRequest s)
        \<and> \<not> req_valid (m_sellShortRequest s) \<and> req_valid (m_buyShortRequest s) \<longrightarrow>
        fst (p_processRequest P k s) = TradeRecord_null
        \<and> (delay (m_params s) \<longrightarrow> fst (runMoment P k s) = TradeRecord_null))
   \<and> (fst (p_buyDelay P k s) = TradeRecord_null
        \<and> m_trade_list (snd (p_buyDelay P k s)) = m_trade_list s
      \<or> tr_business (fst (p_buyDelay P k s)) = BUSINESS_BUY
        \<and> m_trade_list (snd (p_buyDelay P k s)) = m_trade_list s @ [fst (p_buyDelay P k s)]
        \<and> m_buyRequest (snd (p_buyDelay P k s)) = OrderRequest_clear)
   \<and> (let w = m_plugins s;
           planPrice = openPrice k;
           cur = delay_use_current_price (m_params s);
           stoploss = (if cur then p_getStoplossPrice P w (datetime k) planPrice
                       else req_stoploss (m_buyRequest s));
           number = (if cur then p_getBuyNumber P w (datetime k) planPrice
                                   (planPrice - stoploss) (req_from (m_buyRequest s))
                     else req_number (m_buyRequest s));
           goalPrice = (if cur then p_getGoalPrice P w (datetime k) planPrice
                        else req_goal (m_buyRequest s));
           min_num = minTradeNumber (m_stock s);
           record = fst (tm_buy P w (datetime k) (m_stock s)
                           (p_getRealBuyPrice P w (datetime k) planPrice)
                           (if min_num > 1 then number / min_num * min_num else number)
                           stoploss goalPrice planPrice (req_from (m_buyRequest s)))
       in \<not> (highPrice k = lowPrice k \<and> \<not> can_trade_when_high_eq_low (m_params s))
          \<and> \<not> planPrice \<le> stoploss \<and> number \<noteq> 0
          \<and> tr_business record = BUSINESS_BUY \<longrightarrow>
            fst (p_buyDelay P k s) = record
            \<and> m_trade_list (snd (p_buyDelay P k s)) = m_trade_list s @ [record]
            \<and> m_buyRequest (snd (p_buyDelay P k s)) = OrderRequest_clear)
   \<and> (fst (p_sellDelay P k s) = TradeRecord_null
        \<and> m_trade_list (snd (p_sellDelay P k s)) = m_trade_list s
      \<or> tr_business (fst (p_sellDelay P k s)) = BUSINESS_SELL
        \<and> m_trade_list (snd (p_sellDelay P k s)) = m_trade_list s @ [fst (p_sellDelay P k s)]
        \<and> m_sellRequest (snd (p_sellDelay P k s)) = OrderRequest_clear)
   \<and> (let w = m_plugins s;
           planPrice = openPrice k;
           cur = delay_use_current_price (m_params s);
           stoploss = (if cur then p_getStoplossPrice P w (datetime k) planPrice
                       else req_stoploss (m_sellRequest s));
           number = (if cur then
                       (if planPrice < stoploss
                        then tm_getHoldNumber P w (datetime k) (m_stock s)
                        else p_getSellNumber P w (datetime k) planPrice (planPrice - stoploss)
                               (req_from (m_sellRequest s)))
                     else req_number (m_sellRequest s));
           goalPrice = (if cur then p_getGoalPrice P w (datetime k) planPrice
                        else req_goal (m_sellRequest s));
           record = fst (tm_sell P w (datetime k) (m_stock s)
                           (p_getRealSellPrice P w (datetime k) planPrice) number stoploss
                           goalPrice planPrice (req_from (m_sellRequest s)))
       in \<not> (highPrice k = lowPrice k \<and> \<not> can_trade_when_high_eq_low (m_params s))
          \<and> number \<noteq> 0 \<and> tr_business record = BUSINESS_SELL \<longrightarrow>
            fst (p_sellDelay P k s) = record
            \<and> m_trade_list (snd (p_sellDelay P k s)) = m_trade_list s @ [record]
            \<and> m_sellRequest (snd (p_sellDelay P k s)) = OrderRequest_clear)
   \<and> (fst (p_sellShortDelay P k s) = TradeRecord_null
        \<and> m_trade_list (snd (p_sellShortDelay P k s)) = m_trade_list s
      \<or> tr_business (fst (p_sellShortDelay P k s)) = BUSINESS_SELL_SHORT
        \<and> m_trade_list (snd (p_sellShortDelay P k s))
            = m_trade_list s @ [fst (p_sellShortDelay P k s)]
        \<and> m_sellShortRequest (snd (p_sellShortDelay P k s)) = OrderRequest_clear)
   \<and> (let w = m_plugins s;
           planPrice = openPrice k;
           cur = delay_use_current_price (m_params s);
           stoploss = (if cur then p_getShortStoplossPrice P w (datetime k) planPrice
                       else req_stoploss (m_sellShortRequest s));
           number = (if cur then p_getSellShortNumber P w (datetime k) planPrice
                                   (stoploss - planPrice) (req_from (m_sellShortRequest s))
                     else req_number (m_sellShortRequest s));
           goalPrice = (if cur then p_getShortGoalPrice P w (datetime k) planPrice
                        else req_goal (m_sellShortRequest s));
           record = fst (tm_sell P w (datetime k) (m_stock s)
                           (p_getRealSellPrice P w (datetime k) planPrice) number stoploss
                           goalPrice planPrice (req_from (m_sellShortRequest s)))
       in highPrice k \<noteq> lowPrice k \<and> number \<noteq> 0
          \<and> tr_business record = BUSINESS_SELL_SHORT \<longrightarrow>
            fst (p_sellShortDelay P k s) = record
            \<and> m_trade_list (snd (p_sellShortDelay P k s)) = m_trade_list s @ [record]
            \<and> m_sellShortRequest (snd (p_sellShortDelay P k s)) = OrderRequest_clear)"
proof (intro conjI)
  show "fst (p_buyShortDelay P k s) = TradeRecord_null"
    by (rule buyShortDelay_null)
  then show "isNull (fst (p_buyShortDelay P k s))"
    by (simp add: isNull_def TradeRecord_null_def)
qed (rule buyShortDelay_appended buyShortDelay_executes buyShortDelay_dispatched
      buyDelay_returns buyDelay_executes sellDelay_returns sellDelay_executes
      sellShortDelay_returns sellShortDelay_executes)+

theorem buyShortDelay_returns_null_record_witness:
  "p_buyShortDelay demo (bar 2 10 11 9 10)
      ((fresh initParam (0, 100))\<lparr>m_buyShortRequest := request BUSINESS_BUY 1 1\<rparr>)
     = (TradeRecord_null,
        (fresh initParam (0, 0))
          \<lparr>m_trade_list := [demo_trade BUSINESS_BUY_SHORT (Some 2) 10 100 11 5 10 PART_SIGNAL],
           m_lastTakeProfit := 10\<rparr>)
   \<and> delay (m_params
        ((fresh initParam (0, 100))\<lparr>m_buyShortRequest := request BUSINESS_BUY 1 1\<rparr>))
   \<and> fst (runMoment demo (bar 2 10 11 9 10)
        ((fresh initParam (0, 100))\<lparr>m_buyShortRequest := request BUSINESS_BUY 1 1\<rparr>))
       = TradeRecord_null
   \<and> m_trade_list (snd (runMoment demo (bar 2 10 11 9 10)
        ((fresh initParam (0, 100))\<lparr>m_buyShortRequest := request BUSINESS_BUY 1 1\<rparr>)))
       = [demo_trade BUSINESS_BUY_SHORT (Some 2) 10 100 11 5 10 PART_SIGNAL]
   \<and> p_buyDelay demo (bar 2 10 11 9 10)
        ((fresh initParam (0, 0))\<lparr>m_buyRequest := request BUSINESS_BUY 1 1\<rparr>)
       = (demo_trade BUSINESS_BUY (Some 2) 10 100 9 15 10 PART_SIGNAL,
          (fresh initParam (100, 0))
            \<lparr>m_trade_list := [demo_trade BUSINESS_BUY (Some 2) 10 100 9 15 10 PART_SIGNAL],
             m_lastTakeProfit := 10\<rparr>)
   \<and> p_sellDelay demo (bar 3 10 11 9 10)
        ((fresh initParam (100, 0))\<lparr>m_sellRequest := request BUSINESS_SELL 2 1\<rparr>)
       = (demo_trade BUSINESS_SELL (Some 3) 10 100 9 15 10 PART_SIGNAL,
          (fresh initParam (0, 0))
            \<lparr>m_trade_list := [demo_trade BUSINESS_SELL (Some 3) 10 100 9 15 10 PART_SIGNAL]\<rparr>)
   \<and> p_sellShortDelay demo_short (bar 3 10 11 9 10)
        ((fresh initParam (0, 0))\<lparr>m_sellShortRequest := request BUSINESS_SELL_SHORT 2 1\<rparr>)
       = (demo_trade BUSINESS_SELL_SHORT (Some 3) 10 100 11 5 10 PART_SIGNAL,
          (fresh initParam (0, 100))
            \<lparr>m_trade_list :=
               [demo_trade BUSINESS_SELL_SHORT (Some 3) 10 100 11 5 10 PART_SIGNAL],
             m_lastShortTakeProfit := 10\<rparr>)"
  using buyShortDelay_returns_null_record
          [of demo "bar 2 10 11 9 10"
              "(fresh initParam (0, 100))\<lparr>m_buyShortRequest := request BUSINESS_BUY 1 1\<rparr>"]
  by (simp add: run_simps p_buyShortDelay_def p_sellShortDelay_def demo_short_def demo_simps)

text \<open>
  C10 as stated fails for the value of \<open>runMoment\<close>. With \<open>delay\<close> off, 100 held long
  and 100 held short, the bar of datetime 2 executes the pending short-buy request and
  then sells at once on the signal of that bar: \<open>runMoment\<close> returns the record of the
  sale, not an empty record.
\<close>

theorem runMoment_returns_later_trade:
  "m_trade_list (snd (runMoment demo (bar 2 10 11 9 10)
      ((fresh (initParam\<lparr>delay := False\<rparr>) (100, 100))
         \<lparr>m_buyShortRequest := request BUSINESS_BUY 1 1\<rparr>)))
     = [demo_trade BUSINESS_BUY_SHORT (Some 2) 10 100 11 5 10 PART_SIGNAL,
        demo_trade BUSINESS_SELL (Some 2) 10 100 9 15 10 PART_SIGNAL]
   \<and> fst (runMoment demo (bar 2 10 11 9 10)
        ((fresh (initParam\<lparr>delay := False\<rparr>) (100, 100))
           \<lparr>m_buyShortRequest := request BUSINESS_BUY 1 1\<rparr>))
       = demo_trade BUSINESS_SELL (Some 2) 10 100 9 15 10 PART_SIGNAL
   \<and> \<not> isNull (demo_trade BUSINESS_SELL (Some 2) 10 100 9 15 10 PART_SIGNAL)"
  by (simp add: run_simps p_buyShortDelay_def demo_simps)

end
